theory Spec2Isabelle
  imports Complex_Main "HOL-Library.Log_Nat" "HOL-Library.Stream"
begin

section \<open>Numbers\<close>

text \<open>
  Every numeric field of the game is a JavaScript \<^verbatim>\<open>number\<close>, an IEEE-754 binary64 value.
  A finite binary64 value is a rational, so \<open>number\<close> is \<^typ>\<open>rat\<close>, and each arithmetic
  operator of the source is the exact operation followed by \<open>fl\<close>, rounding to the nearest
  value with a 53-bit significand, ties to even. The exponent is unbounded here: overflow to
  \<^verbatim>\<open>Infinity\<close>, subnormals and \<^verbatim>\<open>NaN\<close> are outside the model. A numeric literal of the
  source is \<open>fl\<close> of the decimal it is written as; for integers and for \<open>0.5\<close>, \<open>1.5\<close>,
  \<open>0.25\<close> that is the literal itself.
\<close>

type_synonym number = rat

definition ilog2 :: "rat \<Rightarrow> int" where
  \<comment> \<open>the binary exponent of a positive number: \<open>2 powi e \<le> x < 2 powi (e + 1)\<close>\<close>
  "ilog2 x = (if 1 \<le> x then bitlen \<lfloor>x\<rfloor> - 1 else - bitlen (\<lceil>1 / x\<rceil> - 1))"

definition round_ne :: "rat \<Rightarrow> int" where
  \<comment> \<open>nearest integer, a tie goes to the even neighbour\<close>
  "round_ne y = (let f = \<lfloor>y\<rfloor>; r = y - of_int f in
     if r < 1 / 2 then f else if 1 / 2 < r then f + 1 else if even f then f else f + 1)"

definition fl :: "rat \<Rightarrow> number" where
  "fl x = (if x = 0 then 0 else
     let u = 2 powi (ilog2 \<bar>x\<bar> - 52) in sgn x * of_int (round_ne (\<bar>x\<bar> / u)) * u)"

definition representable :: "rat \<Rightarrow> bool" where
  "representable x = (\<exists>m k. \<bar>m\<bar> \<le> 2 ^ 53 \<and> x = of_int m * 2 powi k)"

definition jadd :: "number \<Rightarrow> number \<Rightarrow> number" where
  "jadd x y = fl (x + y)"

definition jsub :: "number \<Rightarrow> number \<Rightarrow> number" where
  "jsub x y = fl (x - y)"

definition jmul :: "number \<Rightarrow> number \<Rightarrow> number" where
  "jmul x y = fl (x * y)"

definition jdiv :: "number \<Rightarrow> number \<Rightarrow> number" where
  \<comment> \<open>only used with a non-zero divisor\<close>
  "jdiv x y = fl (x / y)"

definition jfloor :: "number \<Rightarrow> number" where
  \<comment> \<open>\<^verbatim>\<open>Math.floor\<close>\<close>
  "jfloor x = of_int \<lfloor>x\<rfloor>"

fun isqrt_bits :: "nat \<Rightarrow> int \<Rightarrow> int \<Rightarrow> int" where
  "isqrt_bits 0 n r = r"
| "isqrt_bits (Suc k) n r =
     (let r' = r + 2 ^ k in isqrt_bits k n (if r' * r' \<le> n then r' else r))"

definition isqrt :: "int \<Rightarrow> int" where
  \<comment> \<open>the integer square root, one bit at a time from the top\<close>
  "isqrt n = isqrt_bits (nat (bitlen n)) n 0"

definition jsqrt :: "number \<Rightarrow> number" where
  \<comment> \<open>\<^verbatim>\<open>Math.sqrt\<close>, correctly rounded; the source only takes roots of sums of squares\<close>
  "jsqrt x = (if x \<le> 0 then 0 else
     let e = ilog2 x div 2;
         u = 2 powi (e - 52);
         y = x / (u * u);
         n = isqrt \<lfloor>y\<rfloor>;
         h = (of_int n + 1 / 2) * (of_int n + 1 / 2);
         m = (if y < h then n else if h < y then n + 1 else if even n then n else n + 1)
     in of_int m * u)"

definition js_or :: "number option \<Rightarrow> number \<Rightarrow> number" where
  \<comment> \<open>\<^verbatim>\<open>x || d\<close> on an optional number: \<^verbatim>\<open>undefined\<close> and \<open>0\<close> are falsy\<close>
  "js_or x d = (case x of None \<Rightarrow> d | Some v \<Rightarrow> if v = 0 then d else v)"

section \<open>Types of the game\<close>

text \<open>
  The declarations of the type module that combat uses. Strings that only feed the display
  (names, icons, colours) are left out of the records.
\<close>

record Position =
  pos_x :: number
  pos_y :: number

datatype ElementType = Physical | Fire | Ice | Lightning | Poison | Light | Arcane

datatype StatusType = Elem ElementType | Oil | Frozen

datatype ResistanceType = ResFire | ResIce | ResLightning

fun resistanceElement :: "ResistanceType \<Rightarrow> ElementType" where
  "resistanceElement ResFire = Fire"
| "resistanceElement ResIce = Ice"
| "resistanceElement ResLightning = Lightning"

datatype ReactionType = Melt | Freeze | Explosion

record ReactionConfig =
  trigger :: "StatusType \<times> ElementType"
  damageMultiplier :: "number option"
  freezeDuration :: "number option"
  explosionRadius :: "number option"

definition REACTION_CONFIGS :: "(ReactionType \<times> ReactionConfig) list" where
  \<comment> \<open>in the order \<^verbatim>\<open>Object.entries\<close> walks the table\<close>
  "REACTION_CONFIGS =
     [(Melt, \<lparr>trigger = (Elem Ice, Fire), damageMultiplier = Some 3,
              freezeDuration = None, explosionRadius = None\<rparr>),
      (Freeze, \<lparr>trigger = (Elem Ice, Lightning), damageMultiplier = None,
              freezeDuration = Some 2000, explosionRadius = None\<rparr>),
      (Explosion, \<lparr>trigger = (Oil, Fire), damageMultiplier = Some (3 / 2),
              freezeDuration = None, explosionRadius = Some 80\<rparr>)]"

datatype EnemyType = Normal | Tank | Breaker | Ghost | Boss

record EnemyTypeConfig =
  cfg_baseHealth :: number
  cfg_baseSpeed :: number
  cfg_size :: number
  cfg_attackDamage :: number
  cfg_attackCooldown :: number
  cfg_evasionChance :: number
  cfg_priority :: number
  cfg_ignoresPath :: bool
  cfg_targetsNearestTower :: bool
  cfg_isBoss :: "bool option"
  cfg_ccImmunity :: "number option"
  cfg_skillCooldown :: "number option"

fun ENEMY_TYPE_CONFIGS :: "EnemyType \<Rightarrow> EnemyTypeConfig" where
  "ENEMY_TYPE_CONFIGS Normal =
     \<lparr>cfg_baseHealth = 80, cfg_baseSpeed = 3 / 2, cfg_size = 24, cfg_attackDamage = 5,
      cfg_attackCooldown = 2000, cfg_evasionChance = 0, cfg_priority = 1,
      cfg_ignoresPath = False, cfg_targetsNearestTower = False, cfg_isBoss = None,
      cfg_ccImmunity = None, cfg_skillCooldown = None\<rparr>"
| "ENEMY_TYPE_CONFIGS Tank =
     \<lparr>cfg_baseHealth = 250, cfg_baseSpeed = fl (8 / 10), cfg_size = 32, cfg_attackDamage = 15,
      cfg_attackCooldown = 3000, cfg_evasionChance = 0, cfg_priority = 3,
      cfg_ignoresPath = False, cfg_targetsNearestTower = False, cfg_isBoss = None,
      cfg_ccImmunity = None, cfg_skillCooldown = None\<rparr>"
| "ENEMY_TYPE_CONFIGS Breaker =
     \<lparr>cfg_baseHealth = 40, cfg_baseSpeed = 2, cfg_size = 22, cfg_attackDamage = 80,
      cfg_attackCooldown = 500, cfg_evasionChance = 0, cfg_priority = 2,
      cfg_ignoresPath = False, cfg_targetsNearestTower = True, cfg_isBoss = None,
      cfg_ccImmunity = None, cfg_skillCooldown = None\<rparr>"
| "ENEMY_TYPE_CONFIGS Ghost =
     \<lparr>cfg_baseHealth = 60, cfg_baseSpeed = fl (12 / 10), cfg_size = 26, cfg_attackDamage = 8,
      cfg_attackCooldown = 2500, cfg_evasionChance = 1 / 2, cfg_priority = 1,
      cfg_ignoresPath = True, cfg_targetsNearestTower = False, cfg_isBoss = None,
      cfg_ccImmunity = None, cfg_skillCooldown = None\<rparr>"
| "ENEMY_TYPE_CONFIGS Boss =
     \<lparr>cfg_baseHealth = 2000, cfg_baseSpeed = 1 / 2, cfg_size = 60, cfg_attackDamage = 30,
      cfg_attackCooldown = 4000, cfg_evasionChance = 0, cfg_priority = 5,
      cfg_ignoresPath = False, cfg_targetsNearestTower = False, cfg_isBoss = Some True,
      cfg_ccImmunity = Some (fl (8 / 10)), cfg_skillCooldown = Some 5000\<rparr>"

record EnemyConfig =
  ec_speed :: number
  ec_health :: number
  ec_size :: number

definition GRID_SIZE :: number where
  "GRID_SIZE = 40"

definition GRID_ROWS :: int where
  "GRID_ROWS = 15"

definition GRID_COLS :: int where
  "GRID_COLS = 15"

definition CANVAS_WIDTH :: number where
  "CANVAS_WIDTH = 600"

definition CANVAS_HEIGHT :: number where
  "CANVAS_HEIGHT = 600"

section \<open>Enemy\<close>

text \<open>
  An enemy and a tower both carry \<open>position\<close>, \<open>size\<close> and \<open>isAlive\<close>; the two records
  extend a common one so that the fields keep the names they have in the classes (\<open>size\<close>
  is \<open>sizePx\<close>, the name \<open>size\<close> being taken). The fields of \<open>Enemy\<close> that only
  movement, boss skills and drawing read (path, route, colour, skill timers, the breaker's
  tower target) are not part of the record.
\<close>

record Entity =
  position :: Position
  sizePx :: number
  isAlive :: bool

record Enemy = Entity +
  health :: number
  maxHealth :: number
  speed :: number
  baseSpeed :: number
  enemyType :: EnemyType
  resistance :: "ResistanceType option"
  status :: "StatusType option"
  statusDuration :: number
  isFrozen :: bool
  freezeEndTime :: number
  isSlowed :: bool
  slowEndTime :: number
  slowMultiplier :: number
  attackDamage :: number
  lastAttackTime :: number
  attackCooldown :: number
  evasionChance :: number
  priority :: number
  ccImmunity :: number

definition Enemy_new ::
  "Position \<Rightarrow> EnemyType \<Rightarrow> number \<Rightarrow> EnemyConfig option \<Rightarrow> ResistanceType option
     \<Rightarrow> Enemy" where
  \<comment> \<open>the constructor. Of its path it reads the first waypoint only, which it copies into
      the position, so the first argument is that waypoint \<^verbatim>\<open>path[0]\<close>. With an empty path
      the constructor still builds a living enemy, whose position has no coordinates
      (\<^verbatim>\<open>undefined\<close>); like \<^verbatim>\<open>NaN\<close>, that is no number of this model, and no such call
      is described here.\<close>
  "Enemy_new start etype waveNumber config res =
     (let typeConfig = ENEMY_TYPE_CONFIGS etype;
          waveMultiplier = jadd 1 (jmul (jsub waveNumber 1) (1 / 4));
          h = (case config of Some c \<Rightarrow> ec_health c
               | None \<Rightarrow> jfloor (jmul (cfg_baseHealth typeConfig) waveMultiplier));
          sp = (case config of Some c \<Rightarrow> ec_speed c | None \<Rightarrow> cfg_baseSpeed typeConfig);
          sz = (case config of Some c \<Rightarrow> ec_size c | None \<Rightarrow> cfg_size typeConfig)
      in \<lparr>position = start, sizePx = sz, isAlive = True,
          health = h, maxHealth = h, speed = sp, baseSpeed = sp,
          enemyType = etype, resistance = res, status = None, statusDuration = 0,
          isFrozen = False, freezeEndTime = 0,
          isSlowed = False, slowEndTime = 0, slowMultiplier = 1,
          attackDamage = jfloor (jmul (cfg_attackDamage typeConfig) waveMultiplier),
          lastAttackTime = 0,
          attackCooldown = cfg_attackCooldown typeConfig,
          evasionChance = cfg_evasionChance typeConfig,
          priority = cfg_priority typeConfig,
          ccImmunity = js_or (cfg_ccImmunity typeConfig) 0\<rparr>)"

definition tryEvade :: "Enemy \<Rightarrow> number \<Rightarrow> bool" where
  \<comment> \<open>the second argument is the value \<^verbatim>\<open>Math.random()\<close> returns\<close>
  "tryEvade e rnd = (rnd < evasionChance e)"

definition canAttackTower :: "Enemy \<Rightarrow> number \<Rightarrow> bool" where
  "canAttackTower e currentTime = (attackCooldown e \<le> jsub currentTime (lastAttackTime e))"

definition attackTower :: "Enemy \<Rightarrow> number \<Rightarrow> number \<times> Enemy" where
  "attackTower e currentTime =
     (let e1 = e\<lparr>lastAttackTime := currentTime\<rparr>;
          e2 = (if enemyType e1 = Breaker then e1\<lparr>isAlive := False, health := 0\<rparr> else e1)
      in (attackDamage e2, e2))"

definition applyStatus :: "Enemy \<Rightarrow> StatusType \<Rightarrow> Enemy" where
  \<comment> \<open>every caller leaves the duration at its default of 3000\<close>
  "applyStatus e s = e\<lparr>status := Some s, statusDuration := 3000\<rparr>"

definition clearStatus :: "Enemy \<Rightarrow> Enemy" where
  "clearStatus e = e\<lparr>status := None, statusDuration := 0\<rparr>"

definition freeze :: "Enemy \<Rightarrow> number \<Rightarrow> number \<Rightarrow> Enemy" where
  \<comment> \<open>\<open>now\<close> is the value of \<^verbatim>\<open>Date.now()\<close>\<close>
  "freeze e now duration =
     (let actualDuration = jfloor (jmul duration (jsub 1 (ccImmunity e)))
      in if actualDuration < 200 then e
         else e\<lparr>isFrozen := True, freezeEndTime := jadd now actualDuration,
                status := Some Frozen\<rparr>)"

definition damageHealth :: "Enemy \<Rightarrow> number \<Rightarrow> Enemy" where
  \<comment> \<open>the three statements each branch of \<open>takeDamage\<close> repeats\<close>
  "damageHealth e d =
     (let h = jsub (health e) d
      in if h \<le> 0 then e\<lparr>health := 0, isAlive := False\<rparr> else e\<lparr>health := h\<rparr>)"

definition takeDamage :: "Enemy \<Rightarrow> number \<Rightarrow> ElementType option \<Rightarrow> number \<times> Enemy" where
  \<comment> \<open>returns the damage dealt and the enemy afterwards; the element is optional in the source\<close>
  "takeDamage e damage attackElement =
     (if attackElement = Some Physical then (damage, damageHealth e damage)
      else if (case resistance e of None \<Rightarrow> False
               | Some r \<Rightarrow> attackElement = Some (resistanceElement r))
      then (1, damageHealth e 1)
      else (damage, damageHealth e damage))"

definition isResistantTo :: "Enemy \<Rightarrow> ElementType \<Rightarrow> bool" where
  "isResistantTo e element =
     (if element = Physical then False
      else map_option resistanceElement (resistance e) = Some element)"

definition getCenter :: "'a Entity_scheme \<Rightarrow> Position" where
  "getCenter e = position e"


section \<open>ReactionSystem\<close>

text \<open>
  Enemies are objects that the game, the towers and the projectiles all hold references to.
  A reference is a number and the heap maps it to the enemy's current fields; a method that
  mutates an enemy returns the heap updated at that reference.
\<close>

type_synonym EnemyRef = nat

type_synonym EnemyHeap = "EnemyRef \<Rightarrow> Enemy"

record ReactionResult =
  rr_type :: ReactionType
  rr_config :: ReactionConfig
  rr_position :: Position
  rr_damage :: number
  rr_affectedEnemies :: "EnemyRef list"

definition distanceBetween :: "Position \<Rightarrow> Position \<Rightarrow> number" where
  \<comment> \<open>the four lines \<^verbatim>\<open>dx\<close>, \<^verbatim>\<open>dy\<close>, \<^verbatim>\<open>Math.sqrt(dx * dx + dy * dy)\<close> that every distance
      test of the source spells out; the first argument is the point subtracted from\<close>
  "distanceBetween p q =
     (let dx = jsub (pos_x p) (pos_x q); dy = jsub (pos_y p) (pos_y q)
      in jsqrt (jadd (jmul dx dx) (jmul dy dy)))"

definition explosionDamageAt :: "number \<Rightarrow> number \<Rightarrow> number \<Rightarrow> number" where
  \<comment> \<open>the two lines of the explosion loop that turn a distance into a damage\<close>
  "explosionDamageAt totalDamage radius distance =
     (let damageRatio = jsub 1 (jmul (jdiv distance radius) (1 / 2))
      in jfloor (jmul totalDamage damageRatio))"

definition explosionHit :: "Enemy \<Rightarrow> number \<Rightarrow> Enemy" where
  \<comment> \<open>what the explosion loop does to one enemy in reach\<close>
  "explosionHit e d =
     (let e1 = damageHealth e d in if status e1 = Some Oil then clearStatus e1 else e1)"

fun explosionLoop ::
  "Position \<Rightarrow> number \<Rightarrow> number \<Rightarrow> EnemyRef list \<Rightarrow> EnemyRef list \<times> EnemyHeap
     \<Rightarrow> EnemyRef list \<times> EnemyHeap" where
  "explosionLoop pos totalDamage radius [] (affected, h) = (affected, h)"
| "explosionLoop pos totalDamage radius (other # rest) (affected, h) =
     (if \<not> isAlive (h other) then explosionLoop pos totalDamage radius rest (affected, h)
      else
        let distance = distanceBetween (getCenter (h other)) pos
        in if distance \<le> radius then
             let damageRatio = jsub 1 (jmul (jdiv distance radius) (1 / 2));
                 explosionDamage = jfloor (jmul totalDamage damageRatio);
                 h1 = h(other := snd (takeDamage (h other) explosionDamage None));
                 affected1 = (if other \<in> set affected then affected else affected @ [other]);
                 h2 = (if status (h1 other) = Some Oil then h1(other := clearStatus (h1 other))
                       else h1)
             in explosionLoop pos totalDamage radius rest (affected1, h2)
           else explosionLoop pos totalDamage radius rest (affected, h))"

definition executeReaction ::
  "EnemyHeap \<Rightarrow> number \<Rightarrow> ReactionType \<Rightarrow> ReactionConfig \<Rightarrow> EnemyRef \<Rightarrow> number
     \<Rightarrow> EnemyRef list \<Rightarrow> ReactionResult \<times> EnemyHeap" where
  "executeReaction h now type config enemy baseDamage allEnemies =
     (let pos = getCenter (h enemy) in
      case type of
        Melt \<Rightarrow>
          let totalDamage = jfloor (jmul baseDamage (js_or (damageMultiplier config) 3));
              h1 = h(enemy := snd (takeDamage (h enemy) totalDamage None));
              h2 = h1(enemy := clearStatus (h1 enemy))
          in (\<lparr>rr_type = type, rr_config = config, rr_position = pos,
               rr_damage = totalDamage, rr_affectedEnemies = [enemy]\<rparr>, h2)
      | Freeze \<Rightarrow>
          let h1 = h(enemy := freeze (h enemy) now (js_or (freezeDuration config) 2000));
              h2 = h1(enemy := clearStatus (h1 enemy))
          in (\<lparr>rr_type = type, rr_config = config, rr_position = pos,
               rr_damage = baseDamage, rr_affectedEnemies = [enemy]\<rparr>, h2)
      | Explosion \<Rightarrow>
          let totalDamage = jfloor (jmul baseDamage (js_or (damageMultiplier config) (3 / 2)));
              radius = js_or (explosionRadius config) 80;
              (affected, h1) = explosionLoop pos totalDamage radius allEnemies ([enemy], h);
              h2 = h1(enemy := clearStatus (h1 enemy))
          in (\<lparr>rr_type = type, rr_config = config, rr_position = pos,
               rr_damage = totalDamage, rr_affectedEnemies = affected\<rparr>, h2))"

fun matchReaction ::
  "(ReactionType \<times> ReactionConfig) list \<Rightarrow> StatusType \<Rightarrow> ElementType
     \<Rightarrow> (ReactionType \<times> ReactionConfig) option" where
  \<comment> \<open>the loop over the table, stopping at the first entry whose trigger matches\<close>
  "matchReaction [] currentStatus attackElement = None"
| "matchReaction ((reactionType, config) # rest) currentStatus attackElement =
     (if currentStatus = fst (trigger config) \<and> attackElement = snd (trigger config)
      then Some (reactionType, config)
      else matchReaction rest currentStatus attackElement)"

definition checkAndTriggerReaction ::
  "EnemyHeap \<Rightarrow> number \<Rightarrow> EnemyRef \<Rightarrow> ElementType \<Rightarrow> number \<Rightarrow> EnemyRef list
     \<Rightarrow> ReactionResult option \<times> EnemyHeap" where
  "checkAndTriggerReaction h now enemy attackElement baseDamage allEnemies =
     (case status (h enemy) of
        None \<Rightarrow> (None, h(enemy := applyStatus (h enemy) (Elem attackElement)))
      | Some currentStatus \<Rightarrow>
          (case matchReaction REACTION_CONFIGS currentStatus attackElement of
             Some (reactionType, config) \<Rightarrow>
               (let (res, h') = executeReaction h now reactionType config enemy baseDamage
                                  allEnemies
                in (Some res, h'))
           | None \<Rightarrow> (None, h(enemy := applyStatus (h enemy) (Elem attackElement)))))"

section \<open>Projectile\<close>

record Projectile =
  p_position :: Position
  p_speed :: number
  p_size :: number
  p_damage :: number
  p_isActive :: bool
  p_element :: ElementType
  p_target :: EnemyRef
  p_velocity :: Position
  p_trail :: "Position list"

record ProjectileConfig =
  pc_speed :: number
  pc_size :: number
  pc_damage :: number

record HitResult =
  hr_hit :: bool
  hr_damage :: number
  hr_isCritical :: bool
  hr_position :: Position
  hr_targetDied :: bool
  hr_element :: ElementType
  hr_target :: EnemyRef

definition criticalChance :: number where
  "criticalChance = fl (1 / 10)"

definition criticalMultiplier :: number where
  "criticalMultiplier = 2"

definition maxTrailLength :: nat where
  "maxTrailLength = 5"

definition updateVelocity :: "EnemyHeap \<Rightarrow> Projectile \<Rightarrow> Projectile" where
  "updateVelocity h p =
     (if \<not> isAlive (h (p_target p)) then p
      else
        let targetPos = getCenter (h (p_target p));
            dx = jsub (pos_x targetPos) (pos_x (p_position p));
            dy = jsub (pos_y targetPos) (pos_y (p_position p));
            distance = jsqrt (jadd (jmul dx dx) (jmul dy dy))
        in if 0 < distance
           then p\<lparr>p_velocity := \<lparr>pos_x = jmul (jdiv dx distance) (p_speed p),
                                  pos_y = jmul (jdiv dy distance) (p_speed p)\<rparr>\<rparr>
           else p)"

definition Projectile_new ::
  "EnemyHeap \<Rightarrow> Position \<Rightarrow> EnemyRef \<Rightarrow> ElementType \<Rightarrow> ProjectileConfig \<Rightarrow> Projectile" where
  "Projectile_new h startPosition target element config =
     updateVelocity h
       \<lparr>p_position = startPosition, p_speed = pc_speed config, p_size = pc_size config,
        p_damage = pc_damage config, p_isActive = True, p_element = element,
        p_target = target, p_velocity = \<lparr>pos_x = 0, pos_y = 0\<rparr>, p_trail = []\<rparr>"

definition isOutOfBounds :: "Projectile \<Rightarrow> bool" where
  "isOutOfBounds p =
     (pos_x (p_position p) < - 50 \<or> jadd CANVAS_WIDTH 50 < pos_x (p_position p) \<or>
      pos_y (p_position p) < - 50 \<or> jadd CANVAS_HEIGHT 50 < pos_y (p_position p))"

definition checkCollision :: "EnemyHeap \<Rightarrow> Projectile \<Rightarrow> bool" where
  "checkCollision h p =
     (let distance = distanceBetween (getCenter (h (p_target p))) (p_position p);
          collisionDistance = jadd (p_size p) (jdiv (sizePx (h (p_target p))) 2)
      in distance < collisionDistance)"

definition Projectile_update ::
  "EnemyHeap \<Rightarrow> Projectile \<Rightarrow> number stream
     \<Rightarrow> HitResult option \<times> Projectile \<times> number stream" where
  \<comment> \<open>the stream holds the values \<^verbatim>\<open>Math.random()\<close> is going to return, in order\<close>
  "Projectile_update h p rng =
     (if \<not> p_isActive p then (None, p, rng)
      else
        let t = p_trail p @ [p_position p];
            p1 = p\<lparr>p_trail := (if maxTrailLength < length t then tl t else t)\<rparr>;
            p2 = (if isAlive (h (p_target p1)) then updateVelocity h p1 else p1);
            p3 = p2\<lparr>p_position :=
                      \<lparr>pos_x = jadd (pos_x (p_position p2)) (pos_x (p_velocity p2)),
                       pos_y = jadd (pos_y (p_position p2)) (pos_y (p_velocity p2))\<rparr>\<rparr>
        in if isOutOfBounds p3 then (None, p3\<lparr>p_isActive := False\<rparr>, rng)
           else if isAlive (h (p_target p3)) \<and> checkCollision h p3 then
             let isCritical = (shd rng < criticalChance);
                 finalDamage = (if isCritical then jfloor (jmul (p_damage p3) criticalMultiplier)
                                else p_damage p3)
             in (Some \<lparr>hr_hit = True, hr_damage = finalDamage, hr_isCritical = isCritical,
                       hr_position = p_position p3, hr_targetDied = False,
                       hr_element = p_element p3, hr_target = p_target p3\<rparr>,
                 p3\<lparr>p_isActive := False\<rparr>, stl rng)
           else (None, p3, rng))"

section \<open>The projectile pass of Game.update\<close>

text \<open>
  One turn of the loop over the projectiles. Pop-ups, particles, the encyclopedia and the
  token drops are display and economy; what the turn does to the enemies is kept, and the
  branch it took is returned as a \<open>HitOutcome\<close>.
\<close>

datatype HitOutcome = NoHit | Evaded | Reacted ReactionResult | Damaged number

definition resolveHit ::
  "EnemyHeap \<Rightarrow> number \<Rightarrow> EnemyRef list \<Rightarrow> HitResult \<Rightarrow> number stream
     \<Rightarrow> HitOutcome \<times> EnemyHeap \<times> number stream" where
  \<comment> \<open>the body of \<^verbatim>\<open>if (hitResult && hitResult.hit)\<close>\<close>
  "resolveHit h now enemies hitResult rng =
     (if tryEvade (h (hr_target hitResult)) (shd rng) then (Evaded, h, stl rng)
      else
        case checkAndTriggerReaction h now (hr_target hitResult) (hr_element hitResult)
               (hr_damage hitResult) enemies of
          (Some reaction, h') \<Rightarrow> (Reacted reaction, h', stl rng)
        | (None, h') \<Rightarrow>
            let (actualDamage, e') = takeDamage (h' (hr_target hitResult)) (hr_damage hitResult)
                                       (Some (hr_element hitResult))
            in (Damaged actualDamage, h'(hr_target hitResult := e'), stl rng))"

definition projectileStep ::
  "EnemyHeap \<Rightarrow> number \<Rightarrow> EnemyRef list \<Rightarrow> Projectile \<Rightarrow> number stream
     \<Rightarrow> HitOutcome \<times> EnemyHeap \<times> Projectile \<times> number stream" where
  "projectileStep h now enemies projectile rng =
     (case Projectile_update h projectile rng of
        (None, p', rng') \<Rightarrow> (NoHit, h, p', rng')
      | (Some hitResult, p', rng') \<Rightarrow>
          (if hr_hit hitResult then
             let (outcome, h', rng'') = resolveHit h now enemies hitResult rng'
             in (outcome, h', p', rng'')
           else (NoHit, h, p', rng')))"


section \<open>SynergySystem\<close>

text \<open>
  The synergy code reads three fields of a tower: its grid row, its grid column and its
  element. \<^verbatim>\<open>previewSynergies\<close> builds an object that has only these three and casts it to a
  tower, and puts it in the same map as the real towers. \<open>TowerSite\<close> is that three-field
  view; the map from grid cells holds views, and \<open>siteOf\<close> takes the view of a tower. The
  key of the map is the pair of row and column (the source joins them with a comma into a
  string).
\<close>

record SynergyEffect =
  sourceElement :: ElementType
  requiredElement :: ElementType
  syn_damageMultiplier :: number

definition SYNERGY_CONFIGS :: "SynergyEffect list" where
  \<comment> \<open>in the order \<^verbatim>\<open>Object.values\<close> walks the table\<close>
  "SYNERGY_CONFIGS =
     [\<lparr>sourceElement = Fire, requiredElement = Ice, syn_damageMultiplier = 2\<rparr>,
      \<lparr>sourceElement = Ice, requiredElement = Lightning, syn_damageMultiplier = 3 / 2\<rparr>,
      \<lparr>sourceElement = Lightning, requiredElement = Fire, syn_damageMultiplier = 3 / 2\<rparr>]"

datatype AnimationPhase = Idle | Squash | Stretch | Recover | DamageShake

record Tower = Entity +
  element :: ElementType
  level :: number
  towerRange :: number
  fireRate :: number
  baseDamage :: number
  gridRow :: int
  gridCol :: int
  hp :: number
  maxHp :: number
  isSilenced :: bool
  silenceEndTime :: number
  activeSynergies :: "SynergyEffect list"
  synergyDamageMultiplier :: number
  lastFireTime :: number
  currentTarget :: "EnemyRef option"
  animationPhase :: AnimationPhase
  animationTimer :: number

record TowerSite =
  ts_gridRow :: int
  ts_gridCol :: int
  ts_element :: ElementType

type_synonym TowerMap = "int \<times> int \<rightharpoonup> TowerSite"

definition siteOf :: "Tower \<Rightarrow> TowerSite" where
  "siteOf t = \<lparr>ts_gridRow = gridRow t, ts_gridCol = gridCol t, ts_element = element t\<rparr>"

definition setSynergies :: "Tower \<Rightarrow> SynergyEffect list \<Rightarrow> Tower" where
  "setSynergies t synergies =
     t\<lparr>activeSynergies := synergies,
       synergyDamageMultiplier :=
         foldl (\<lambda>multiplier synergy. jmul multiplier (syn_damageMultiplier synergy)) 1 synergies\<rparr>"

definition createTowerMap :: "Tower list \<Rightarrow> TowerMap" where
  "createTowerMap towers =
     foldl (\<lambda>m tower. m((gridRow tower, gridCol tower) \<mapsto> siteOf tower)) Map.empty towers"

definition directions :: "(int \<times> int) list" where
  "directions = [(- 1, 0), (1, 0), (0, - 1), (0, 1)]"

definition getAdjacentTowers :: "TowerSite \<Rightarrow> TowerMap \<Rightarrow> TowerSite list" where
  "getAdjacentTowers tower towerMap =
     concat (map (\<lambda>(dRow, dCol).
        let newRow = ts_gridRow tower + dRow; newCol = ts_gridCol tower + dCol
        in if newRow < 0 \<or> GRID_ROWS \<le> newRow \<or> newCol < 0 \<or> GRID_COLS \<le> newCol then []
           else (case towerMap (newRow, newCol) of None \<Rightarrow> []
                 | Some adjacentTower \<Rightarrow> [adjacentTower])) directions)"

definition calculateSynergiesForTower :: "TowerSite \<Rightarrow> TowerMap \<Rightarrow> SynergyEffect list" where
  "calculateSynergiesForTower tower towerMap =
     (let adjacentElements = set (map ts_element (getAdjacentTowers tower towerMap))
      in filter (\<lambda>synergyConfig. ts_element tower = sourceElement synergyConfig \<and>
                   requiredElement synergyConfig \<in> adjacentElements) SYNERGY_CONFIGS)"

definition calculateAndApplySynergies :: "Tower list \<Rightarrow> Tower list" where
  "calculateAndApplySynergies towers =
     (let towerMap = createTowerMap towers
      in map (\<lambda>tower. setSynergies tower (calculateSynergiesForTower (siteOf tower) towerMap))
           towers)"

record SynergyPreview =
  newTowerSynergies :: "SynergyEffect list"
  affectedTowers :: "(Tower \<times> SynergyEffect list) list"

definition previewSynergies ::
  "ElementType \<Rightarrow> int \<Rightarrow> int \<Rightarrow> Tower list \<Rightarrow> SynergyPreview \<times> Tower list" where
  \<comment> \<open>returns the preview and the towers as the call leaves them\<close>
  "previewSynergies el row col existingTowers =
     (let tempTower = \<lparr>ts_gridRow = row, ts_gridCol = col, ts_element = el\<rparr>;
          towerMap = (createTowerMap existingTowers)((row, col) \<mapsto> tempTower);
          newSyn = calculateSynergiesForTower tempTower towerMap;
          affected = concat (map (\<lambda>(dRow, dCol).
             let adjRow = row + dRow; adjCol = col + dCol
             in case find (\<lambda>t. gridRow t = adjRow \<and> gridCol t = adjCol) existingTowers of
                  None \<Rightarrow> []
                | Some adjTower \<Rightarrow>
                    let newSynergies = calculateSynergiesForTower (siteOf adjTower) towerMap
                    in if length newSynergies \<noteq> length (activeSynergies adjTower)
                       then [(adjTower, newSynergies)] else []) directions)
      in (\<lparr>newTowerSynergies = newSyn, affectedTowers = affected\<rparr>, existingTowers))"

definition cellOf :: "Tower \<Rightarrow> int \<times> int" where
  "cellOf t = (gridRow t, gridCol t)"

definition isOrthogonalNeighbour :: "int \<Rightarrow> int \<Rightarrow> Tower \<Rightarrow> bool" where
  \<comment> \<open>the tower stands on one of the four cells next to \<open>(row, col)\<close>\<close>
  "isOrthogonalNeighbour row col t = ((gridRow t - row, gridCol t - col) \<in> set directions)"

section \<open>Tower\<close>

definition triggerDamageAnimation :: "Tower \<Rightarrow> Tower" where
  "triggerDamageAnimation t = t\<lparr>animationPhase := DamageShake, animationTimer := 0\<rparr>"

definition triggerFireAnimation :: "Tower \<Rightarrow> Tower" where
  "triggerFireAnimation t = t\<lparr>animationPhase := Squash, animationTimer := 0\<rparr>"

definition Tower_takeDamage :: "Tower \<Rightarrow> number \<Rightarrow> bool \<times> Tower" where
  \<comment> \<open>returns whether the tower was destroyed\<close>
  "Tower_takeDamage t damage =
     (if \<not> isAlive t then (False, t)
      else
        let t1 = triggerDamageAnimation (t\<lparr>hp := jsub (hp t) damage\<rparr>)
        in if hp t1 \<le> 0 then (True, t1\<lparr>hp := 0, isAlive := False\<rparr>) else (False, t1))"

definition getEffectiveDamage :: "Tower \<Rightarrow> number" where
  "getEffectiveDamage t = jfloor (jmul (baseDamage t) (synergyDamageMultiplier t))"

definition getDistanceTo :: "EnemyHeap \<Rightarrow> Tower \<Rightarrow> EnemyRef \<Rightarrow> number" where
  "getDistanceTo h t enemy = distanceBetween (getCenter (h enemy)) (position t)"

definition isInRange :: "EnemyHeap \<Rightarrow> Tower \<Rightarrow> EnemyRef \<Rightarrow> bool" where
  "isInRange h t enemy = (getDistanceTo h t enemy \<le> towerRange t)"

definition isCandidate :: "EnemyHeap \<Rightarrow> Tower \<Rightarrow> EnemyRef \<Rightarrow> bool" where
  \<comment> \<open>the enemies the scan of \<open>findTarget\<close> does not skip\<close>
  "isCandidate h t e = (isAlive (h e) \<and> getDistanceTo h t e \<le> towerRange t)"

definition bestSoFar ::
  "EnemyHeap \<Rightarrow> Tower \<Rightarrow> EnemyRef list \<Rightarrow> EnemyRef option \<times> number \<times> number option \<Rightarrow> bool" where
  \<comment> \<open>the invariant of the scan: its state after the enemies \<open>seen\<close>\<close>
  "bestSoFar h t seen st =
     (case st of
        (None, bp, cd) \<Rightarrow> bp = 0 \<and> cd = None \<and> (\<forall>e \<in> set seen. \<not> isCandidate h t e)
      | (Some b, bp, cd) \<Rightarrow>
          b \<in> set seen \<and> isCandidate h t b \<and> bp = priority (h b) \<and>
          cd = Some (getDistanceTo h t b) \<and>
          (\<forall>e \<in> set seen. isCandidate h t e \<longrightarrow>
             priority (h e) < priority (h b) \<or>
             (priority (h e) = priority (h b) \<and> getDistanceTo h t b \<le> getDistanceTo h t e)))"

fun findTargetLoop ::
  "EnemyHeap \<Rightarrow> Tower \<Rightarrow> EnemyRef list \<Rightarrow> EnemyRef option \<times> number \<times> number option
     \<Rightarrow> EnemyRef option \<times> number \<times> number option" where
  \<comment> \<open>the state is the target so far, \<^verbatim>\<open>bestPriority\<close> and \<^verbatim>\<open>closestDistance\<close>, for which
      \<open>None\<close> is \<^verbatim>\<open>Infinity\<close>\<close>
  "findTargetLoop h t [] st = st"
| "findTargetLoop h t (enemy # rest) (target, bestPriority, closestDistance) =
     (if \<not> isAlive (h enemy) then findTargetLoop h t rest (target, bestPriority, closestDistance)
      else
        let distance = getDistanceTo h t enemy
        in if towerRange t < distance
           then findTargetLoop h t rest (target, bestPriority, closestDistance)
           else if bestPriority < priority (h enemy) \<or>
                   (priority (h enemy) = bestPriority \<and>
                    (case closestDistance of None \<Rightarrow> True | Some c \<Rightarrow> distance < c))
           then findTargetLoop h t rest (Some enemy, priority (h enemy), Some distance)
           else findTargetLoop h t rest (target, bestPriority, closestDistance))"

definition findTarget :: "EnemyHeap \<Rightarrow> Tower \<Rightarrow> EnemyRef list \<Rightarrow> Tower" where
  "findTarget h t enemies =
     (if (case currentTarget t of None \<Rightarrow> False
          | Some c \<Rightarrow> isAlive (h c) \<and> isInRange h t c)
      then t
      else t\<lparr>currentTarget := fst (findTargetLoop h t enemies (None, 0, None))\<rparr>)"

definition tryFire :: "EnemyHeap \<Rightarrow> Tower \<Rightarrow> number \<Rightarrow> Projectile option \<times> Tower" where
  "tryFire h t currentTime =
     (if isSilenced t \<and> currentTime < silenceEndTime t then (None, t)
      else
        let t1 = (if isSilenced t then t\<lparr>isSilenced := False\<rparr> else t)
        in case currentTarget t1 of
             None \<Rightarrow> (None, t1)
           | Some target \<Rightarrow>
               if \<not> isAlive (h target) then (None, t1)
               else if jsub currentTime (lastFireTime t1) < fireRate t1 then (None, t1)
               else if \<not> isInRange h t1 target then (None, t1\<lparr>currentTarget := None\<rparr>)
               else
                 let t2 = (triggerFireAnimation t1)\<lparr>lastFireTime := currentTime\<rparr>;
                     projectileSize = (if 0 < length (activeSynergies t2) then 8 else 6)
                 in (Some (Projectile_new h (position t2) target (element t2)
                             \<lparr>pc_speed = 8, pc_size = projectileSize,
                              pc_damage = getEffectiveDamage t2\<rparr>),
                     t2))"

section \<open>The melee pass of Game.update\<close>

text \<open>
  \<^verbatim>\<open>processEnemyAttacks\<close> walks the enemies, and for each the towers. The pop-up it creates for
  an attack is kept as a \<open>TowerAttack\<close>: which enemy, which tower (its index in the tower
  list) and the damage. Releasing the grid cell of a destroyed tower belongs to the grid and
  is left out; the synergy recomputation over the living towers is kept.
\<close>

record TowerAttack =
  ta_enemy :: EnemyRef
  ta_tower :: nat
  ta_damage :: number

definition handleTowerDestruction :: "Tower list \<Rightarrow> Tower list" where
  "handleTowerDestruction towers =
     (let towerMap = createTowerMap (filter isAlive towers)
      in map (\<lambda>tower. if isAlive tower
                       then setSynergies tower (calculateSynergiesForTower (siteOf tower) towerMap)
                       else tower) towers)"

definition inMeleeReach :: "Tower \<Rightarrow> Enemy \<Rightarrow> bool" where
  \<comment> \<open>the distance test of the inner loop: under 1.5 grid cells\<close>
  "inMeleeReach tower enemy =
     (distanceBetween (position tower) (position enemy) < jmul GRID_SIZE (3 / 2))"

definition attacksBy :: "EnemyRef \<Rightarrow> TowerAttack list \<Rightarrow> TowerAttack list" where
  \<comment> \<open>the attacks of one enemy among the pop-ups of a pass\<close>
  "attacksBy r popups = filter (\<lambda>a. ta_enemy a = r) popups"

fun adjacentTowerIndex :: "Enemy \<Rightarrow> Tower list \<Rightarrow> nat \<Rightarrow> nat option" where
  \<comment> \<open>the inner loop up to its \<^verbatim>\<open>break\<close>: the index of the first living tower in reach,
      counting from the third argument\<close>
  "adjacentTowerIndex enemy [] i = None"
| "adjacentTowerIndex enemy (tower # rest) i =
     (if \<not> isAlive tower then adjacentTowerIndex enemy rest (Suc i)
      else if distanceBetween (position tower) (position enemy) < jmul GRID_SIZE (3 / 2)
      then Some i
      else adjacentTowerIndex enemy rest (Suc i))"

definition enemyAttackTurn ::
  "number \<Rightarrow> EnemyHeap \<times> Tower list \<times> TowerAttack list \<Rightarrow> EnemyRef
     \<Rightarrow> EnemyHeap \<times> Tower list \<times> TowerAttack list" where
  \<comment> \<open>one turn of the outer loop\<close>
  "enemyAttackTurn currentTime state enemy =
     (case state of (h, towers, popups) \<Rightarrow>
        if \<not> isAlive (h enemy) then state
        else if enemyType (h enemy) = Breaker then state
        else if \<not> canAttackTower (h enemy) currentTime then state
        else
          case adjacentTowerIndex (h enemy) towers 0 of
            None \<Rightarrow> state
          | Some i \<Rightarrow>
              let (damage, enemy') = attackTower (h enemy) currentTime;
                  (destroyed, tower') = Tower_takeDamage (towers ! i) damage;
                  towers1 = towers[i := tower'];
                  popups1 = popups @ [\<lparr>ta_enemy = enemy, ta_tower = i, ta_damage = damage\<rparr>];
                  towers2 = (if destroyed then handleTowerDestruction towers1 else towers1)
              in (h(enemy := enemy'), towers2, popups1))"

definition processEnemyAttacks ::
  "number \<Rightarrow> EnemyRef list \<Rightarrow> EnemyHeap \<times> Tower list \<times> TowerAttack list
     \<Rightarrow> EnemyHeap \<times> Tower list \<times> TowerAttack list" where
  "processEnemyAttacks currentTime enemies state =
     foldl (enemyAttackTurn currentTime) state enemies"

section \<open>Example states\<close>

definition exampleEnemy :: Enemy where
  "exampleEnemy =
     \<lparr>position = \<lparr>pos_x = 100, pos_y = 100\<rparr>, sizePx = 24, isAlive = True,
      health = 500, maxHealth = 500, speed = 3 / 2, baseSpeed = 3 / 2,
      enemyType = Normal, resistance = None, status = None, statusDuration = 0,
      isFrozen = False, freezeEndTime = 0, isSlowed = False, slowEndTime = 0,
      slowMultiplier = 1, attackDamage = 5, lastAttackTime = 0, attackCooldown = 2000,
      evasionChance = 0, priority = 1, ccImmunity = 0\<rparr>"

definition exampleHit :: "EnemyRef \<Rightarrow> ElementType \<Rightarrow> number \<Rightarrow> HitResult" where
  "exampleHit target el damage =
     \<lparr>hr_hit = True, hr_damage = damage, hr_isCritical = False,
      hr_position = \<lparr>pos_x = 100, pos_y = 100\<rparr>, hr_targetDied = False,
      hr_element = el, hr_target = target\<rparr>"

definition singleHeap :: "Enemy \<Rightarrow> EnemyHeap" where
  \<comment> \<open>a heap in which every reference holds the same enemy\<close>
  "singleHeap e = (\<lambda>_. e)"

definition exampleBoss :: Enemy where
  "exampleBoss =
     \<lparr>position = \<lparr>pos_x = 100, pos_y = 100\<rparr>, sizePx = 60, isAlive = True,
      health = 2000, maxHealth = 2000, speed = 1 / 2, baseSpeed = 1 / 2,
      enemyType = Boss, resistance = None, status = None, statusDuration = 0,
      isFrozen = False, freezeEndTime = 0, isSlowed = False, slowEndTime = 0,
      slowMultiplier = 1, attackDamage = 30, lastAttackTime = 0, attackCooldown = 4000,
      evasionChance = 0, priority = 5, ccImmunity = fl (8 / 10)\<rparr>"

definition exampleGhost :: Enemy where
  "exampleGhost =
     \<lparr>position = \<lparr>pos_x = 100, pos_y = 100\<rparr>, sizePx = 26, isAlive = True,
      health = 60, maxHealth = 60, speed = fl (12 / 10), baseSpeed = fl (12 / 10),
      enemyType = Ghost, resistance = None, status = None, statusDuration = 0,
      isFrozen = False, freezeEndTime = 0, isSlowed = False, slowEndTime = 0,
      slowMultiplier = 1, attackDamage = 8, lastAttackTime = 0, attackCooldown = 2500,
      evasionChance = 1 / 2, priority = 1, ccImmunity = 0\<rparr>"

definition immuneEnemy :: Enemy where
  "immuneEnemy = exampleEnemy\<lparr>ccImmunity := fl (95 / 100), status := Some (Elem Ice)\<rparr>"

definition resistantEnemy :: Enemy where
  "resistantEnemy = exampleEnemy\<lparr>resistance := Some ResFire\<rparr>"

definition exampleProjectile :: Projectile where
  "exampleProjectile =
     \<lparr>p_position = \<lparr>pos_x = 100, pos_y = 100\<rparr>, p_speed = 8, p_size = 6, p_damage = 28,
      p_isActive = True, p_element = Fire, p_target = 0,
      p_velocity = \<lparr>pos_x = 0, pos_y = 0\<rparr>, p_trail = []\<rparr>"

definition exampleDraws :: "number stream" where
  "exampleDraws = (1 / 2) ## (1 / 4) ## sconst 0"

definition explosionHeap :: EnemyHeap where
  \<comment> \<open>an oil-tagged enemy at reference 0, one 80 away at 2, every other one 81 away\<close>
  "explosionHeap =
     (singleHeap (exampleEnemy\<lparr>position := \<lparr>pos_x = 181, pos_y = 100\<rparr>\<rparr>))
       (0 := applyStatus exampleEnemy Oil,
        2 := exampleEnemy\<lparr>position := \<lparr>pos_x = 180, pos_y = 100\<rparr>\<rparr>)"

definition exampleTower :: Tower where
  "exampleTower =
     \<lparr>position = \<lparr>pos_x = 100, pos_y = 100\<rparr>, sizePx = 30, isAlive = True,
      element = Fire, level = 1, towerRange = 120, fireRate = 1000, baseDamage = 28,
      gridRow = 2, gridCol = 2, hp = 100, maxHp = 100, isSilenced = False,
      silenceEndTime = 0, activeSynergies = [], synergyDamageMultiplier = 1,
      lastFireTime = 0, currentTarget = None, animationPhase = Idle, animationTimer = 0\<rparr>"

definition targetHeap :: EnemyHeap where
  \<comment> \<open>a normal enemy on the tower at reference 0, a tank 80 away at 2, the rest dead\<close>
  "targetHeap =
     (singleHeap (exampleEnemy\<lparr>isAlive := False, priority := 5\<rparr>))
       (0 := exampleEnemy,
        2 := exampleEnemy\<lparr>position := \<lparr>pos_x = 180, pos_y = 100\<rparr>, priority := 3\<rparr>)"

definition meleeHeap :: EnemyHeap where
  \<comment> \<open>a ghost at reference 0, breakers everywhere else, all standing on the example tower\<close>
  "meleeHeap = (singleHeap (exampleEnemy\<lparr>enemyType := Breaker\<rparr>))(0 := exampleGhost)"

definition meleeTowers :: "Tower list" where
  \<comment> \<open>the example tower and a second one a cell to its right, both in reach of an enemy
      standing on the first\<close>
  "meleeTowers =
     [exampleTower, exampleTower\<lparr>position := \<lparr>pos_x = 140, pos_y = 100\<rparr>, gridCol := 3\<rparr>]"

definition weakTower :: Tower where
  \<comment> \<open>the example tower down to 5 hit points\<close>
  "weakTower = exampleTower\<lparr>hp := 5\<rparr>"

definition ghostHeap :: EnemyHeap where
  \<comment> \<open>ghosts only, all standing on the example tower\<close>
  "ghostHeap = singleHeap exampleGhost"

definition exampleTowers :: "Tower list" where
  \<comment> \<open>a lightning tower right of cell (2, 2) and an ice tower above it\<close>
  "exampleTowers =
     [exampleTower\<lparr>element := Lightning, gridCol := 3\<rparr>,
      exampleTower\<lparr>element := Ice, gridRow := 1\<rparr>]"

section \<open>Facts about rounding\<close>

lemma ilog2_lower:
  assumes "0 < x"
  shows "2 powi (ilog2 x) \<le> x"
proof (cases "1 \<le> x")
  case True
  then have p: "0 < \<lfloor>x\<rfloor>" by linarith
  from bitlen_bounds[OF p] have "2 ^ nat (bitlen \<lfloor>x\<rfloor> - 1) \<le> \<lfloor>x\<rfloor>" by simp
  then have "(of_int (2 ^ nat (bitlen \<lfloor>x\<rfloor> - 1)) :: rat) \<le> of_int \<lfloor>x\<rfloor>"
    by (simp only: of_int_le_iff)
  also have "\<dots> \<le> x" by simp
  finally have "(2::rat) ^ nat (bitlen \<lfloor>x\<rfloor> - 1) \<le> x" by simp
  moreover have "0 \<le> bitlen \<lfloor>x\<rfloor> - 1" using p by (simp add: bitlen_def floorlog_def)
  ultimately show ?thesis using True by (simp add: ilog2_def power_int_def)
next
  case False
  define c where "c = \<lceil>1 / x\<rceil> - 1"
  from False assms have "1 < 1 / x" by simp
  then have cp: "0 < c" unfolding c_def by linarith
  have "1 / x \<le> of_int (c + 1)" unfolding c_def by simp
  also from bitlen_bounds[OF cp] have "c + 1 \<le> 2 ^ nat (bitlen c)" by simp
  then have "(of_int (c + 1) :: rat) \<le> of_int (2 ^ nat (bitlen c))" by (simp only: of_int_le_iff)
  finally have "1 / x \<le> 2 ^ nat (bitlen c)" by simp
  then have "1 / 2 ^ nat (bitlen c) \<le> x" using assms
    by (simp add: field_simps)
  moreover have "0 \<le> bitlen c" by (simp add: bitlen_def)
  ultimately show ?thesis using False
    by (simp add: ilog2_def c_def[symmetric] power_int_def field_simps) force
qed

lemma ilog2_upper:
  assumes "0 < x"
  shows "x < 2 powi (ilog2 x + 1)"
proof (cases "1 \<le> x")
  case True
  then have p: "0 < \<lfloor>x\<rfloor>" by linarith
  from bitlen_bounds[OF p] have "\<lfloor>x\<rfloor> + 1 \<le> 2 ^ nat (bitlen \<lfloor>x\<rfloor>)" by simp
  then have "(of_int (\<lfloor>x\<rfloor> + 1) :: rat) \<le> of_int (2 ^ nat (bitlen \<lfloor>x\<rfloor>))"
    by (simp only: of_int_le_iff)
  moreover have "x < of_int (\<lfloor>x\<rfloor> + 1)" by linarith
  ultimately have "x < 2 ^ nat (bitlen \<lfloor>x\<rfloor>)" by simp
  moreover have "0 \<le> bitlen \<lfloor>x\<rfloor>" by (simp add: bitlen_def)
  ultimately show ?thesis using True by (simp add: ilog2_def power_int_def)
next
  case False
  define c where "c = \<lceil>1 / x\<rceil> - 1"
  from False assms have "1 < 1 / x" by simp
  then have cp: "0 < c" unfolding c_def by linarith
  have b1: "1 \<le> bitlen c" using cp by (simp add: bitlen_def floorlog_def)
  have lt: "of_int c < 1 / x" unfolding c_def by linarith
  from bitlen_bounds[OF cp] have "2 ^ nat (bitlen c - 1) \<le> c" by simp
  then have "(of_int (2 ^ nat (bitlen c - 1)) :: rat) \<le> of_int c" by (simp only: of_int_le_iff)
  then have "(2::rat) ^ nat (bitlen c - 1) \<le> of_int c" by simp
  with lt have "2 ^ nat (bitlen c - 1) < 1 / x" by linarith
  then have "x < 1 / 2 ^ nat (bitlen c - 1)" using assms
    by (simp add: field_simps)
  then show ?thesis using False b1
    by (simp add: ilog2_def c_def[symmetric] power_int_def field_simps)
qed

lemma round_ne_of_int: "round_ne (of_int n) = n"
  by (simp add: round_ne_def)

lemma round_ne_bounds:
  assumes "0 \<le> y" "y \<le> of_int N"
  shows "0 \<le> round_ne y \<and> round_ne y \<le> N"
proof -
  have f0: "0 \<le> \<lfloor>y\<rfloor>" using assms(1) by simp
  have fN: "\<lfloor>y\<rfloor> \<le> N" using assms(2) by (simp add: floor_le_iff)
  have "\<lfloor>y\<rfloor> + 1 \<le> N" if "0 < y - of_int \<lfloor>y\<rfloor>"
  proof -
    from that have "of_int \<lfloor>y\<rfloor> < y" by simp
    with assms(2) have "(of_int \<lfloor>y\<rfloor> :: rat) < of_int N" by linarith
    then show ?thesis by simp
  qed
  then show ?thesis using f0 fN
    by (auto simp: round_ne_def Let_def)
qed

lemma fl_representable: "representable (fl x)"
proof (cases "x = 0")
  case True
  then show ?thesis by (auto simp: fl_def representable_def intro: exI[of _ 0])
next
  case False
  define e where "e = ilog2 \<bar>x\<bar>"
  define u :: rat where "u = 2 powi (e - 52)"
  define m where "m = round_ne (\<bar>x\<bar> / u)"
  have up: "0 < u" by (simp add: u_def)
  have ax: "0 < \<bar>x\<bar>" using False by simp
  have "\<bar>x\<bar> < 2 powi (e + 1)" unfolding e_def by (rule ilog2_upper[OF ax])
  also have "(2::rat) powi (e + 1) = 2 ^ 53 * u"
    unfolding u_def by (simp add: power_int_add power_int_diff)
  finally have "\<bar>x\<bar> / u \<le> of_int (2 ^ 53)" using up by (simp add: field_simps)
  moreover have "0 \<le> \<bar>x\<bar> / u" using up by simp
  ultimately have "0 \<le> \<bar>x\<bar> / u" "\<bar>x\<bar> / u \<le> of_int (2 ^ 53)" by blast+
  then have mb: "0 \<le> m \<and> m \<le> 2 ^ 53" unfolding m_def by (rule round_ne_bounds)
  have "fl x = of_int (if 0 < x then m else - m) * 2 powi (e - 52)"
    using False by (simp add: fl_def Let_def e_def u_def m_def sgn_if)
  moreover have "\<bar>if 0 < x then m else - m\<bar> \<le> 2 ^ 53" using mb by simp
  ultimately show ?thesis unfolding representable_def by blast
qed

lemma representable_floor:
  assumes "representable x"
  shows "representable (of_int \<lfloor>x\<rfloor>)"
proof -
  from assms obtain m k where mk: "\<bar>m\<bar> \<le> 2 ^ 53" "x = of_int m * 2 powi k"
    unfolding representable_def by blast
  show ?thesis
  proof (cases "0 \<le> k")
    case True
    then have "x = of_int (m * 2 ^ nat k)" using mk(2) by (simp add: power_int_def)
    then have "of_int \<lfloor>x\<rfloor> = x" by simp
    then show ?thesis using assms by metis
  next
    case False
    then have "(2::rat) powi k \<le> 1" by (simp add: power_int_def field_simps)
    then have "\<bar>x\<bar> \<le> of_int \<bar>m\<bar>"
      using mk(2) by (simp add: abs_mult mult_left_le)
    also have "\<dots> \<le> of_int (2 ^ 53)" using mk(1) by (simp only: of_int_le_iff)
    finally have b: "- of_int (2 ^ 53) \<le> x" "x \<le> of_int (2 ^ 53)" by linarith+
    from b(2) have "\<lfloor>x\<rfloor> \<le> \<lfloor>of_int (2 ^ 53) :: rat\<rfloor>" by (rule floor_mono)
    then have f1: "\<lfloor>x\<rfloor> \<le> 2 ^ 53" by (simp only: floor_of_int)
    from b(1) have "of_int (- (2 ^ 53)) \<le> x" by simp
    then have f2: "- (2 ^ 53) \<le> \<lfloor>x\<rfloor>" by (simp only: le_floor_iff)
    from f1 f2 have "\<bar>\<lfloor>x\<rfloor>\<bar> \<le> 2 ^ 53" by (simp add: abs_le_iff minus_le_iff)
    then have "\<bar>\<lfloor>x\<rfloor>\<bar> \<le> 2 ^ 53 \<and> (of_int \<lfloor>x\<rfloor> :: rat) = of_int \<lfloor>x\<rfloor> * 2 powi 0"
      by simp
    then show ?thesis unfolding representable_def by blast
  qed
qed

lemma fl_id:
  assumes "representable x"
  shows "fl x = x"
proof (cases "x = 0")
  case True
  then show ?thesis by (simp add: fl_def)
next
  case False
  from assms obtain m k where mk: "\<bar>m\<bar> \<le> 2 ^ 53" "x = of_int m * 2 powi k"
    unfolding representable_def by blast
  define e where "e = ilog2 \<bar>x\<bar>"
  define u :: rat where "u = 2 powi (e - 52)"
  have ax: "0 < \<bar>x\<bar>" using False by simp
  have absx: "\<bar>x\<bar> = of_int \<bar>m\<bar> * 2 powi k" using mk(2) by (simp add: abs_mult)
  have lo: "2 powi e \<le> \<bar>x\<bar>" unfolding e_def by (rule ilog2_lower[OF ax])
  have xu: "\<bar>x\<bar> / u = of_int \<bar>m\<bar> * 2 powi (k - e + 52)"
    unfolding absx u_def by (simp add: power_int_diff power_int_add)
  have "\<exists>n. \<bar>x\<bar> / u = of_int n"
  proof (cases "e \<le> k + 52")
    case True
    then have "(2::rat) powi (k - e + 52) = of_int (2 ^ nat (k - e + 52))"
      by (simp add: power_int_def)
    then have "\<bar>x\<bar> / u = of_int (\<bar>m\<bar> * 2 ^ nat (k - e + 52))"
      unfolding xu by simp
    then show ?thesis by blast
  next
    case False
    have "(2::rat) powi e \<le> of_int \<bar>m\<bar> * 2 powi k" using lo absx by simp
    then have pm: "(2::rat) powi (e - k) \<le> of_int \<bar>m\<bar>"
      by (simp add: power_int_diff field_simps)
    also have "\<dots> \<le> of_int (2 ^ 53)" using mk(1) by (simp only: of_int_le_iff)
    finally have le53: "(2::rat) powi (e - k) \<le> 2 powi 53" by simp
    have "e - k \<le> 53"
      by (rule power_int_le_imp_le_exp[OF _ le53]) simp_all
    with False have ek: "e = k + 53" by simp
    from pm have "(of_int (2 ^ 53) :: rat) \<le> of_int \<bar>m\<bar>" using ek by simp
    then have "2 ^ 53 \<le> \<bar>m\<bar>" by (simp only: of_int_le_iff)
    with mk(1) have "\<bar>m\<bar> = 2 ^ 53" by simp
    then have "\<bar>x\<bar> / u = of_int (2 ^ 52)" unfolding xu ek by simp
    then show ?thesis by blast
  qed
  then obtain n where n: "\<bar>x\<bar> / u = of_int n" by blast
  have "fl x = sgn x * (\<bar>x\<bar> / u) * u"
    using False by (simp add: fl_def Let_def e_def[symmetric] u_def[symmetric] n round_ne_of_int)
  also have "\<dots> = sgn x * \<bar>x\<bar>" by (simp add: u_def)
  also have "\<dots> = x" by (simp add: sgn_if)
  finally show ?thesis .
qed

lemma representable_jfloor: "representable x \<Longrightarrow> representable (jfloor x)"
  unfolding jfloor_def by (rule representable_floor)

lemma representable_half: "representable x \<Longrightarrow> representable (x * (1 / 2))"
proof -
  assume "representable x"
  then obtain m k where mk: "\<bar>m\<bar> \<le> 2 ^ 53" "x = of_int m * 2 powi k"
    unfolding representable_def by blast
  have "x * (1 / 2) = of_int m * 2 powi (k - 1)"
    unfolding mk(2) by (simp add: power_int_diff)
  with mk(1) show ?thesis unfolding representable_def by blast
qed

lemma fl_0: "fl 0 = 0"
  by (simp add: fl_def)

lemma representable_1: "representable 1"
  unfolding representable_def by (rule exI[of _ 1], rule exI[of _ 0]) simp

lemma fl_1: "fl 1 = 1"
  by (rule fl_id[OF representable_1])

lemma fl_half: "fl (1 / 2) = 1 / 2"
  using fl_id[OF representable_half[OF representable_1]] by simp

lemma fl_of_int: "\<bar>n\<bar> \<le> 2 ^ 53 \<Longrightarrow> fl (of_int n) = of_int n"
proof (rule fl_id)
  assume "\<bar>n\<bar> \<le> 2 ^ 53"
  then have "\<bar>n\<bar> \<le> 2 ^ 53 \<and> (of_int n :: rat) = of_int n * 2 powi 0" by simp
  then show "representable (of_int n)" unfolding representable_def by blast
qed

lemma fl_numeral: "numeral k \<le> (9007199254740992::int) \<Longrightarrow> fl (numeral k) = numeral k"
  using fl_of_int[of "numeral k"] by simp

lemma isqrt_bits_bounds:
  assumes "0 \<le> r" and "r * r \<le> n" and "n < (r + 2 ^ k) * (r + 2 ^ k)"
  shows "0 \<le> isqrt_bits k n r \<and> isqrt_bits k n r * isqrt_bits k n r \<le> n
       \<and> n < (isqrt_bits k n r + 1) * (isqrt_bits k n r + 1)"
  using assms
proof (induction k arbitrary: r)
  case 0
  then show ?case by simp
next
  case (Suc k)
  show ?case
  proof (cases "(r + 2 ^ k) * (r + 2 ^ k) \<le> n")
    case True
    have "n < (r + 2 ^ k + 2 ^ k) * (r + 2 ^ k + 2 ^ k)" using Suc.prems(3) by (simp add: algebra_simps)
    with Suc.IH[of "r + 2 ^ k"] True Suc.prems(1) show ?thesis by (simp add: Let_def)
  next
    case False
    with Suc.IH[of r] Suc.prems(1,2) show ?thesis by (simp add: Let_def)
  qed
qed

lemma isqrt_bounds:
  assumes "0 \<le> n"
  shows "0 \<le> isqrt n \<and> isqrt n * isqrt n \<le> n \<and> n < (isqrt n + 1) * (isqrt n + 1)"
proof -
  have "n < 2 ^ nat (bitlen n)"
  proof (cases "n = 0")
    case True
    then show ?thesis by simp
  next
    case False
    with assms have "0 < n" by simp
    from bitlen_bounds[OF this] show ?thesis by simp
  qed
  also have "(2::int) ^ nat (bitlen n) \<le> 2 ^ nat (bitlen n) * 2 ^ nat (bitlen n)"
    by (simp add: self_le_power)
  finally have "n < (0 + 2 ^ nat (bitlen n)) * (0 + 2 ^ nat (bitlen n))" by simp
  from isqrt_bits_bounds[OF _ _ this] assms show ?thesis by (simp add: isqrt_def)
qed

lemma jsqrt_0: "jsqrt 0 = 0"
  by (simp add: jsqrt_def)

section \<open>Facts about the example states\<close>

lemma exampleBoss_new:
  "Enemy_new \<lparr>pos_x = 100, pos_y = 100\<rparr> Boss 1 None None = exampleBoss"
  by code_simp

lemma exampleGhost_new:
  "Enemy_new \<lparr>pos_x = 100, pos_y = 100\<rparr> Ghost 1 None None = exampleGhost"
  by code_simp

section \<open>Reactions and damage\<close>

lemma matchReaction_ice_fire:
  "matchReaction REACTION_CONFIGS (Elem Ice) Fire =
     Some (Melt, \<lparr>trigger = (Elem Ice, Fire), damageMultiplier = Some 3,
              freezeDuration = None, explosionRadius = None\<rparr>)"
  by (simp add: REACTION_CONFIGS_def)

lemma takeDamage_None: "takeDamage e d None = (d, damageHealth e d)"
  by (simp add: takeDamage_def split: option.splits)

text \<open>
  C1. An enemy whose status is ice and that a fire attack of base damage \<open>B\<close> hits (the
  evasion roll failing) gets the melt reaction: the one damage application is
  \<open>Math.floor(B * 3)\<close>, taken from its health with the usual stop at zero, its status ends
  as none, and the branch that applies the raw damage is not run. For \<open>B = 100\<close> the
  amount is 300.
\<close>

theorem melt_total_damage:
  assumes "status (h enemy) = Some (Elem Ice)"
    and "hr_target hit = enemy" and "hr_element hit = Fire" and "hr_damage hit = B"
    and "\<not> tryEvade (h enemy) (shd rng)"
  shows "\<exists>res h'. resolveHit h now enemies hit rng = (Reacted res, h', stl rng)
           \<and> rr_type res = Melt \<and> rr_damage res = jfloor (jmul B 3)
           \<and> h' = h(enemy := clearStatus (damageHealth (h enemy) (jfloor (jmul B 3))))
           \<and> health (h' enemy) =
               (if jsub (health (h enemy)) (jfloor (jmul B 3)) \<le> 0 then 0
                else jsub (health (h enemy)) (jfloor (jmul B 3)))
           \<and> status (h' enemy) = None
           \<and> jfloor (jmul 100 3) = 300"
proof -
  have "jfloor (jmul 100 3) = 300" by code_simp
  then show ?thesis using assms
    by (simp add: resolveHit_def checkAndTriggerReaction_def matchReaction_ice_fire
        executeReaction_def js_or_def takeDamage_None clearStatus_def damageHealth_def Let_def)
qed

theorem melt_total_damage_witness:
  "health (fst (snd (resolveHit (singleHeap (applyStatus exampleEnemy (Elem Ice))) 0 [0]
             (exampleHit 0 Fire 100) (sconst (1 / 2)))) 0) = 200
   \<and> status (fst (snd (resolveHit (singleHeap (applyStatus exampleEnemy (Elem Ice))) 0 [0]
             (exampleHit 0 Fire 100) (sconst (1 / 2)))) 0) = None"
proof -
  let ?h = "singleHeap (applyStatus exampleEnemy (Elem Ice))"
  have a: "status (?h 0) = Some (Elem Ice)" by (simp add: applyStatus_def singleHeap_def)
  have b: "hr_target (exampleHit 0 Fire 100) = 0" "hr_element (exampleHit 0 Fire 100) = Fire"
    "hr_damage (exampleHit 0 Fire 100) = 100"
    by (simp_all add: exampleHit_def)
  have c: "\<not> tryEvade (?h 0) (shd (sconst (1 / 2)))"
    by (simp add: tryEvade_def applyStatus_def exampleEnemy_def singleHeap_def)
  have d: "jsub 500 300 = 200" by code_simp
  from melt_total_damage[where h = ?h and enemy = 0 and now = 0 and enemies = "[0]", OF a b c] d
  show ?thesis
    by (auto simp: applyStatus_def exampleEnemy_def singleHeap_def)
qed


lemma takeDamage_element:
  "takeDamage e D (Some E) =
     (if isResistantTo e E then (1, damageHealth e 1) else (D, damageHealth e D))"
  by (cases "resistance e") (auto simp: takeDamage_def isResistantTo_def)

lemma resistance_applyStatus [simp]: "resistance (applyStatus e s) = resistance e"
  by (simp add: applyStatus_def)

lemma isResistantTo_applyStatus [simp]: "isResistantTo (applyStatus e s) E = isResistantTo e E"
  by (simp add: isResistantTo_def)

text \<open>
  C2, as the code has it. A hit that is not evaded and triggers no reaction goes to
  \<open>takeDamage\<close> with its element: an enemy whose resistance is that element loses exactly 1,
  whatever the nominal damage \<open>D\<close>; a physical hit is never resisted and takes the full \<open>D\<close>;
  the attack's element becomes the status. A hit that triggers a reaction does not pass its
  element on: melt takes \<open>Math.floor(D * 3)\<close> in full from an enemy whatever its resistance.
\<close>

theorem resistance_only_on_direct_hits:
  assumes "hr_target hit = enemy" and "hr_element hit = E" and "hr_damage hit = D"
    and "\<not> tryEvade (h enemy) (shd rng)"
  shows "((case status (h enemy) of None \<Rightarrow> None
           | Some s \<Rightarrow> matchReaction REACTION_CONFIGS s E) = None \<longrightarrow>
          resolveHit h now enemies hit rng =
            (Damaged (if isResistantTo (h enemy) E then 1 else D),
             h(enemy := damageHealth (applyStatus (h enemy) (Elem E))
                          (if isResistantTo (h enemy) E then 1 else D)),
             stl rng))
       \<and> \<not> isResistantTo (h enemy) Physical
       \<and> (isResistantTo (h enemy) E \<longleftrightarrow>
            (\<exists>r. resistance (h enemy) = Some r \<and> resistanceElement r = E))
       \<and> (status (h enemy) = Some (Elem Ice) \<and> E = Fire \<longrightarrow>
            fst (snd (resolveHit h now enemies hit rng)) enemy =
              clearStatus (damageHealth (h enemy) (jfloor (jmul D 3))))"
proof -
  have 1: "\<not> isResistantTo (h enemy) Physical" by (simp add: isResistantTo_def)
  have 2: "isResistantTo (h enemy) E \<longleftrightarrow>
            (\<exists>r. resistance (h enemy) = Some r \<and> resistanceElement r = E)"
  proof (cases "resistance (h enemy)")
    case None
    then show ?thesis by (simp add: isResistantTo_def)
  next
    case (Some r)
    then show ?thesis by (cases r) (auto simp: isResistantTo_def)
  qed
  have 3: "resolveHit h now enemies hit rng =
            (Damaged (if isResistantTo (h enemy) E then 1 else D),
             h(enemy := damageHealth (applyStatus (h enemy) (Elem E))
                          (if isResistantTo (h enemy) E then 1 else D)),
             stl rng)"
    if "(case status (h enemy) of None \<Rightarrow> None
           | Some s \<Rightarrow> matchReaction REACTION_CONFIGS s E) = None"
    using that assms
    by (auto simp: resolveHit_def checkAndTriggerReaction_def takeDamage_element
        split: option.splits)
  have 4: "fst (snd (resolveHit h now enemies hit rng)) enemy =
              clearStatus (damageHealth (h enemy) (jfloor (jmul D 3)))"
    if "status (h enemy) = Some (Elem Ice)" "E = Fire"
    using that assms
    by (simp add: resolveHit_def checkAndTriggerReaction_def matchReaction_ice_fire
        executeReaction_def js_or_def takeDamage_None Let_def)
  from 1 2 3 4 show ?thesis by blast
qed

theorem resistance_only_on_direct_hits_witness:
  "resolveHit (singleHeap resistantEnemy) 0 [0] (exampleHit 0 Fire 100) (sconst (1 / 2)) =
     (Damaged 1,
      (singleHeap resistantEnemy)(0 := resistantEnemy\<lparr>health := 499, status := Some (Elem Fire),
         statusDuration := 3000\<rparr>),
      sconst (1 / 2))"
proof -
  have a: "hr_target (exampleHit 0 Fire 100) = 0" "hr_element (exampleHit 0 Fire 100) = Fire"
    "hr_damage (exampleHit 0 Fire 100) = 100"
    by (simp_all add: exampleHit_def)
  have c: "\<not> tryEvade (singleHeap resistantEnemy 0) (shd (sconst (1 / 2)))"
    by (simp add: tryEvade_def singleHeap_def resistantEnemy_def exampleEnemy_def)
  have d: "jsub 500 1 = 499" by code_simp
  have e: "isResistantTo resistantEnemy Fire"
    by (simp add: isResistantTo_def resistantEnemy_def)
  from resistance_only_on_direct_hits[where h = "singleHeap resistantEnemy" and enemy = 0
      and now = 0 and enemies = "[0]", OF a c] d e
  show ?thesis
    by (simp add: singleHeap_def resistantEnemy_def exampleEnemy_def damageHealth_def
        applyStatus_def)
qed

text \<open>
  C2 as stated fails on the reaction path: a fire-resistant enemy with 500 health and status
  ice, hit by a fire attack of nominal damage 100, is left with 200 health. The melt
  reaction took 300 from it, not the minimal 1.
\<close>

theorem resistance_reaction_counterexample:
  "resistance resistantEnemy = Some ResFire \<and> resistanceElement ResFire = Fire
   \<and> health (applyStatus resistantEnemy (Elem Ice)) = 500
   \<and> health (fst (snd (resolveHit (singleHeap (applyStatus resistantEnemy (Elem Ice))) 0 [0]
        (exampleHit 0 Fire 100) (sconst (1 / 2)))) 0) = 200"
proof -
  have "jfloor (jmul 100 3) = 300" by code_simp
  moreover have "jsub 500 300 = 200" by code_simp
  ultimately show ?thesis
    by (simp add: resolveHit_def checkAndTriggerReaction_def matchReaction_ice_fire
        executeReaction_def js_or_def takeDamage_None clearStatus_def damageHealth_def Let_def
        singleHeap_def applyStatus_def resistantEnemy_def exampleEnemy_def exampleHit_def
        tryEvade_def)
qed

section \<open>Freeze and crowd-control immunity\<close>

lemma matchReaction_ice_lightning:
  "matchReaction REACTION_CONFIGS (Elem Ice) Lightning =
     Some (Freeze, \<lparr>trigger = (Elem Ice, Lightning), damageMultiplier = None,
              freezeDuration = Some 2000, explosionRadius = None\<rparr>)"
  by (simp add: REACTION_CONFIGS_def)

lemma boss_duration: "jfloor (jmul 2000 (jsub 1 (fl (8 / 10)))) = 399"
  by code_simp

lemma executeReaction_Freeze:
  "executeReaction h now Freeze config enemy B allEnemies =
     (\<lparr>rr_type = Freeze, rr_config = config, rr_position = getCenter (h enemy),
       rr_damage = B, rr_affectedEnemies = [enemy]\<rparr>,
      h(enemy := clearStatus (freeze (h enemy) now (js_or (freezeDuration config) 2000))))"
  by (simp add: executeReaction_def Let_def)

text \<open>
  The freeze reaction as the code computes it. With nominal duration \<open>T\<close> on an enemy with
  CC immunity \<open>c\<close> it evaluates \<open>A = Math.floor(T * (1 - c))\<close> on JavaScript numbers. From
  \<open>A = 200\<close> upwards the enemy is frozen until \<open>now + A\<close>; below 200 the freeze call changes
  nothing, so the freeze flag and end time stay what they were. Either way the status is
  cleared and no damage is dealt. A hit of lightning on an enemy with status ice that is not
  evaded is this reaction with the table's \<open>T = 2000\<close>.
\<close>

lemma freeze_reaction_duration:
  assumes "T = js_or (freezeDuration config) 2000"
    and "A = jfloor (jmul T (jsub 1 (ccImmunity (h enemy))))"
    and "executeReaction h now Freeze config enemy B allEnemies = (res, h')"
  shows "(200 \<le> A \<longrightarrow> isFrozen (h' enemy) \<and> freezeEndTime (h' enemy) = jadd now A)
       \<and> (A < 200 \<longrightarrow> isFrozen (h' enemy) = isFrozen (h enemy)
                      \<and> freezeEndTime (h' enemy) = freezeEndTime (h enemy))
       \<and> status (h' enemy) = None \<and> health (h' enemy) = health (h enemy)
       \<and> (\<forall>r. r \<noteq> enemy \<longrightarrow> h' r = h r)
       \<and> (matchReaction REACTION_CONFIGS (Elem Ice) Lightning = Some (Freeze, config) \<and>
          status (h enemy) = Some (Elem Ice) \<and> hr_target hit = enemy \<and>
          hr_element hit = Lightning \<and> hr_damage hit = B \<and> \<not> tryEvade (h enemy) (shd rng) \<longrightarrow>
            T = 2000 \<and> resolveHit h now allEnemies hit rng = (Reacted res, h', stl rng))"
proof -
  have 1: "(200 \<le> A \<longrightarrow> isFrozen (h' enemy) \<and> freezeEndTime (h' enemy) = jadd now A)
       \<and> (A < 200 \<longrightarrow> isFrozen (h' enemy) = isFrozen (h enemy)
                      \<and> freezeEndTime (h' enemy) = freezeEndTime (h enemy))
       \<and> status (h' enemy) = None \<and> health (h' enemy) = health (h enemy)
       \<and> (\<forall>r. r \<noteq> enemy \<longrightarrow> h' r = h r)"
    using assms
    by (auto simp: executeReaction_Freeze freeze_def clearStatus_def Let_def)
  have 2: "T = 2000 \<and> resolveHit h now allEnemies hit rng = (Reacted res, h', stl rng)"
    if "matchReaction REACTION_CONFIGS (Elem Ice) Lightning = Some (Freeze, config)"
      "status (h enemy) = Some (Elem Ice)" "hr_target hit = enemy"
      "hr_element hit = Lightning" "hr_damage hit = B" "\<not> tryEvade (h enemy) (shd rng)"
  proof -
    from that(1) have "freezeDuration config = Some 2000"
      by (auto simp: matchReaction_ice_lightning)
    then have "T = 2000" using assms(1) by (simp add: js_or_def)
    moreover have "resolveHit h now allEnemies hit rng = (Reacted res, h', stl rng)"
      using that assms(3) by (simp add: resolveHit_def checkAndTriggerReaction_def)
    ultimately show ?thesis by simp
  qed
  from 1 2 show ?thesis by blast
qed

text \<open>
  C3. The example of the claim, run on the code. The boss the constructor builds has CC
  immunity \<open>0.8\<close>, which the type table comments as a reduction of crowd control by 80%, so
  that a freeze of 2000 is meant to last \<open>floor (2000 * (1 - 0.8)) = 400\<close>, as the claim says
  and as exact arithmetic gives. The code evaluates the same expression on JavaScript
  numbers: \<open>0.8\<close> is the binary64 value \<open>3602879701896397 / 4503599627370496\<close>, \<open>1 - 0.8\<close> is
  a little under \<open>0.2\<close>, the product a little under 400, and \<^verbatim>\<open>Math.floor\<close> makes it 399.
  The boss with status ice, hit by lightning at time 0, is frozen until 399: the code
  freezes it one millisecond short of what the claim requires.
\<close>

theorem freeze_boss_duration:
  "Enemy_new \<lparr>pos_x = 100, pos_y = 100\<rparr> Boss 1 None None = exampleBoss
   \<and> ccImmunity exampleBoss = fl (8 / 10) \<and> fl (8 / 10) = 3602879701896397 / 4503599627370496
   \<and> \<lfloor>(2000 :: rat) * (1 - 8 / 10)\<rfloor> = 400
   \<and> isFrozen (fst (snd (resolveHit (singleHeap (applyStatus exampleBoss (Elem Ice))) 0 [0]
        (exampleHit 0 Lightning 28) (sconst (1 / 2)))) 0)
   \<and> freezeEndTime (fst (snd (resolveHit (singleHeap (applyStatus exampleBoss (Elem Ice))) 0 [0]
        (exampleHit 0 Lightning 28) (sconst (1 / 2)))) 0) = 399"
proof -
  have "fl (8 / 10) = 3602879701896397 / 4503599627370496" by code_simp
  moreover have "jadd 0 399 = 399" by code_simp
  moreover have "\<lfloor>(2000 :: rat) * (1 - 8 / 10)\<rfloor> = 400" by simp
  ultimately show ?thesis using boss_duration exampleBoss_new
  by (simp add: resolveHit_def checkAndTriggerReaction_def matchReaction_ice_lightning
        executeReaction_def js_or_def clearStatus_def freeze_def Let_def singleHeap_def
        applyStatus_def exampleBoss_def exampleHit_def tryEvade_def)
qed

text \<open>
  C10. An enemy with status ice is hit by lightning (the evasion roll failing) and its CC
  immunity \<open>c\<close> makes \<open>Math.floor(2000 * (1 - c))\<close> less than 200. The freeze reaction fires
  all the same, and all it does to the enemy is clear the status: the freeze flag and the
  freeze end time are what they were, the health is untouched, and lightning does not become
  the status.
\<close>

theorem freeze_fully_resisted:
  assumes "status (h enemy) = Some (Elem Ice)"
    and "hr_target hit = enemy" and "hr_element hit = Lightning"
    and "\<not> tryEvade (h enemy) (shd rng)"
    and "jfloor (jmul 2000 (jsub 1 (ccImmunity (h enemy)))) < 200"
  shows "\<exists>res. resolveHit h now enemies hit rng =
                 (Reacted res, h(enemy := clearStatus (h enemy)), stl rng)
           \<and> rr_type res = Freeze
           \<and> status (clearStatus (h enemy)) = None
           \<and> isFrozen (clearStatus (h enemy)) = isFrozen (h enemy)
           \<and> freezeEndTime (clearStatus (h enemy)) = freezeEndTime (h enemy)
           \<and> health (clearStatus (h enemy)) = health (h enemy)"
  using assms
  by (simp add: resolveHit_def checkAndTriggerReaction_def matchReaction_ice_lightning
        executeReaction_Freeze js_or_def freeze_def clearStatus_def Let_def)

theorem freeze_fully_resisted_witness:
  "jfloor (jmul 2000 (jsub 1 (fl (95 / 100)))) = 100
   \<and> fst (resolveHit (singleHeap immuneEnemy) 0 [0] (exampleHit 0 Lightning 28) (sconst (1 / 2)))
       \<noteq> Damaged 28
   \<and> status (fst (snd (resolveHit (singleHeap immuneEnemy) 0 [0] (exampleHit 0 Lightning 28)
        (sconst (1 / 2)))) 0) = None
   \<and> \<not> isFrozen (fst (snd (resolveHit (singleHeap immuneEnemy) 0 [0] (exampleHit 0 Lightning 28)
        (sconst (1 / 2)))) 0)"
proof -
  have d: "jfloor (jmul 2000 (jsub 1 (fl (95 / 100)))) = 100" by code_simp
  have a: "status (singleHeap immuneEnemy 0) = Some (Elem Ice)"
    by (simp add: singleHeap_def immuneEnemy_def)
  have b: "hr_target (exampleHit 0 Lightning 28) = 0"
    "hr_element (exampleHit 0 Lightning 28) = Lightning"
    by (simp_all add: exampleHit_def)
  have c: "\<not> tryEvade (singleHeap immuneEnemy 0) (shd (sconst (1 / 2)))"
    by (simp add: tryEvade_def singleHeap_def immuneEnemy_def exampleEnemy_def)
  have e: "jfloor (jmul 2000 (jsub 1 (ccImmunity (singleHeap immuneEnemy 0)))) < 200"
    using d by (simp add: singleHeap_def immuneEnemy_def)
  from freeze_fully_resisted[where h = "singleHeap immuneEnemy" and enemy = 0 and now = 0
      and enemies = "[0]", OF a b c e] d show ?thesis
    by (auto simp: clearStatus_def singleHeap_def immuneEnemy_def exampleEnemy_def)
qed

section \<open>Evasion\<close>

lemma Projectile_update_Some:
  assumes "Projectile_update h p rng = (Some hit, p', rng')"
  shows "hr_hit hit \<and> rng' = stl rng \<and> hr_target hit = p_target p \<and> \<not> p_isActive p'"
  using assms
  by (auto simp: Projectile_update_def Let_def updateVelocity_def split: if_splits)

lemma Projectile_update_None:
  assumes "Projectile_update h p rng = (None, p', rng')"
  shows "rng' = rng"
  using assms
  by (auto simp: Projectile_update_def Let_def split: if_splits)

lemma criticalChance_value: "criticalChance = 3602879701896397 / 36028797018963968"
  unfolding criticalChance_def by code_simp

lemma exampleProjectile_update:
  "Projectile_update (singleHeap exampleGhost) exampleProjectile exampleDraws =
     (Some \<lparr>hr_hit = True, hr_damage = 28, hr_isCritical = False,
            hr_position = \<lparr>pos_x = 100, pos_y = 100\<rparr>, hr_targetDied = False,
            hr_element = Fire, hr_target = 0\<rparr>,
      exampleProjectile\<lparr>p_trail := [\<lparr>pos_x = 100, pos_y = 100\<rparr>], p_isActive := False\<rparr>,
      (1 / 4) ## sconst 0)"
  by (simp add: Projectile_update_def Let_def singleHeap_def exampleProjectile_def
      exampleGhost_def exampleDraws_def maxTrailLength_def updateVelocity_def getCenter_def
      isOutOfBounds_def checkCollision_def distanceBetween_def jsub_def jadd_def jmul_def
      jdiv_def fl_0 jsqrt_0 fl_numeral CANVAS_WIDTH_def CANVAS_HEIGHT_def criticalChance_value)

text \<open>
  C8. In one turn of the projectile loop the random draws come in this order: the critical
  roll, made only when the projectile's update finds a collision with its living target,
  then the evasion roll. Without a collision nothing is rolled and no enemy changes. With a
  collision and an evasion roll below the target's evasion chance the turn ends there: the
  heap of enemies is the one before (health and status of every enemy unchanged) and neither
  a reaction nor damage is computed. Only when the evasion roll fails does the turn reach the
  reaction and damage code.
\<close>

theorem evasion_nullifies_hit:
  shows "(Projectile_update h p rng = (None, p', rng') \<longrightarrow>
            projectileStep h now enemies p rng = (NoHit, h, p', rng) \<and> rng' = rng)
       \<and> (Projectile_update h p rng = (Some hit, p', rng') \<and>
            tryEvade (h (hr_target hit)) (shd rng') \<longrightarrow>
            projectileStep h now enemies p rng = (Evaded, h, p', stl rng') \<and> rng' = stl rng)
       \<and> (Projectile_update h p rng = (Some hit, p', rng') \<and>
            \<not> tryEvade (h (hr_target hit)) (shd rng') \<longrightarrow>
            fst (projectileStep h now enemies p rng) \<noteq> Evaded \<and>
            fst (projectileStep h now enemies p rng) \<noteq> NoHit)"
proof -
  have 1: "projectileStep h now enemies p rng = (NoHit, h, p', rng) \<and> rng' = rng"
    if "Projectile_update h p rng = (None, p', rng')"
    using that Projectile_update_None[OF that] by (simp add: projectileStep_def)
  have 2: "projectileStep h now enemies p rng = (Evaded, h, p', stl rng') \<and> rng' = stl rng"
    if "Projectile_update h p rng = (Some hit, p', rng')"
      "tryEvade (h (hr_target hit)) (shd rng')"
    using that Projectile_update_Some[OF that(1)]
    by (simp add: projectileStep_def resolveHit_def)
  have 3: "fst (projectileStep h now enemies p rng) \<noteq> Evaded \<and>
            fst (projectileStep h now enemies p rng) \<noteq> NoHit"
    if "Projectile_update h p rng = (Some hit, p', rng')"
      "\<not> tryEvade (h (hr_target hit)) (shd rng')"
    using that Projectile_update_Some[OF that(1)]
    by (auto simp: projectileStep_def resolveHit_def split: prod.splits option.splits)
  from 1 2 3 show ?thesis by blast
qed

theorem evasion_nullifies_hit_witness:
  "projectileStep (singleHeap exampleGhost) 0 [0] exampleProjectile exampleDraws =
     (Evaded, singleHeap exampleGhost,
      exampleProjectile\<lparr>p_trail := [\<lparr>pos_x = 100, pos_y = 100\<rparr>], p_isActive := False\<rparr>,
      sconst 0)"
proof -
  have "tryEvade (singleHeap exampleGhost 0) (shd ((1 / 4) ## sconst 0))"
    by (simp add: tryEvade_def singleHeap_def exampleGhost_def)
  with exampleProjectile_update
    evasion_nullifies_hit[where h = "singleHeap exampleGhost" and p = exampleProjectile
      and rng = exampleDraws and rng' = "(1 / 4) ## sconst 0" and now = 0 and enemies = "[0]"
      and p' = "exampleProjectile\<lparr>p_trail := [\<lparr>pos_x = 100, pos_y = 100\<rparr>],
                  p_isActive := False\<rparr>"
      and hit = "\<lparr>hr_hit = True, hr_damage = 28, hr_isCritical = False,
                  hr_position = \<lparr>pos_x = 100, pos_y = 100\<rparr>, hr_targetDied = False,
                  hr_element = Fire, hr_target = 0\<rparr>"]
  show ?thesis by simp
qed


section \<open>Explosion\<close>

lemma status_damageHealth [simp]: "status (damageHealth e d) = status e"
  by (simp add: damageHealth_def Let_def)

lemma clearStatus_fields [simp]:
  "health (clearStatus e) = health e" "isAlive (clearStatus e) = isAlive e"
  "status (clearStatus e) = None" "position (clearStatus e) = position e"
  by (simp_all add: clearStatus_def)

lemma explosionLoop_heap:
  assumes "distinct rs"
  shows "snd (explosionLoop pos td radius rs (aff, h)) r =
     (if r \<in> set rs \<and> isAlive (h r) \<and> distanceBetween (getCenter (h r)) pos \<le> radius
      then explosionHit (h r) (explosionDamageAt td radius (distanceBetween (getCenter (h r)) pos))
      else h r)"
  using assms
proof (induction rs arbitrary: aff h)
  case Nil
  then show ?case by simp
next
  case (Cons a rs)
  then have d: "distinct rs" and a: "a \<notin> set rs" by simp_all
  show ?case
  proof (cases "isAlive (h a) \<and> distanceBetween (getCenter (h a)) pos \<le> radius")
    case False
    then show ?thesis using Cons.IH[OF d] by (auto simp: Let_def)
  next
    case True
    then show ?thesis using Cons.IH[OF d] a
      by (auto simp: Let_def takeDamage_None explosionHit_def explosionDamageAt_def)
  qed
qed

lemma explosionLoop_affected:
  assumes "distinct rs"
  shows "set (fst (explosionLoop pos td radius rs (aff, h))) =
     set aff \<union> {r \<in> set rs. isAlive (h r) \<and> distanceBetween (getCenter (h r)) pos \<le> radius}"
  using assms
proof (induction rs arbitrary: aff h)
  case Nil
  then show ?case by simp
next
  case (Cons a rs)
  then have d: "distinct rs" and a: "a \<notin> set rs" by simp_all
  have same: "\<And>x r. r \<in> set rs \<Longrightarrow> (h(a := x)) r = h r" using a by auto
  show ?case
  proof (cases "isAlive (h a) \<and> distanceBetween (getCenter (h a)) pos \<le> radius")
    case False
    then show ?thesis using Cons.IH[OF d] by (auto simp: Let_def)
  next
    case True
    then show ?thesis using Cons.IH[OF d] a
      by (auto simp: Let_def)
  qed
qed

lemma explosionDamageAt_centre:
  assumes "representable td"
  shows "explosionDamageAt td radius 0 = jfloor td"
  using fl_id[OF assms]
  by (simp add: explosionDamageAt_def jdiv_def jmul_def jsub_def fl_0 fl_1)

lemma explosionDamageAt_edge:
  assumes "representable td" and "radius \<noteq> 0"
  shows "explosionDamageAt td radius radius = jfloor (td / 2)"
proof -
  have "fl (td * (1 / 2)) = td * (1 / 2)" by (rule fl_id[OF representable_half[OF assms(1)]])
  then have e: "fl (td / 2) = td / 2" by simp
  show ?thesis using assms(2)
    by (simp add: explosionDamageAt_def jdiv_def jmul_def jsub_def fl_1 fl_half e)
qed

lemma jfloor_jfloor: "jfloor (jfloor x) = jfloor x"
  by (simp add: jfloor_def)

lemma distanceBetween_self: "distanceBetween p p = 0"
  by (simp add: distanceBetween_def jsub_def jmul_def jadd_def fl_0 jsqrt_0)

lemma matchReaction_oil_fire:
  "matchReaction REACTION_CONFIGS Oil Fire =
     Some (Explosion, \<lparr>trigger = (Oil, Fire), damageMultiplier = Some (3 / 2),
              freezeDuration = None, explosionRadius = Some 80\<rparr>)"
  by (simp add: REACTION_CONFIGS_def)


lemma representable_total: "representable (jfloor (jmul B m))"
  unfolding jmul_def by (rule representable_jfloor[OF fl_representable])

text \<open>
  C4, as the code has it. When a fire attack of base damage \<open>B\<close> hits an oil-tagged enemy (the
  evasion roll failing), the explosion reaction fires with full damage
  \<open>td = Math.floor(B * 1.5)\<close>. Every living enemy of the list whose computed distance \<open>d\<close>
  to the hit enemy is at most 80 takes \<open>Math.floor(td * (1 - (d / 80) * 0.5))\<close>, whatever
  its resistance, and loses an oil tag if it has one. At distance 0, where the hit enemy
  itself is, that is \<open>td\<close>; at distance exactly 80 it is \<open>td / 2\<close> rounded down. Every
  other enemy, one farther than 80 away among them, is left as it was, and the hit enemy's
  status is cleared.
\<close>

theorem explosion_falloff:
  assumes "status (h enemy) = Some Oil"
    and "hr_target hit = enemy" and "hr_element hit = Fire" and "hr_damage hit = B"
    and "\<not> tryEvade (h enemy) (shd rng)"
    and "distinct enemies"
    and "td = jfloor (jmul B (3 / 2))"
    and "resolveHit h now enemies hit rng = (outcome, h', rng')"
  shows "(\<exists>res. outcome = Reacted res \<and> rr_type res = Explosion \<and> rr_damage res = td
            \<and> set (rr_affectedEnemies res) =
                {enemy} \<union> {r \<in> set enemies. isAlive (h r) \<and>
                    distanceBetween (position (h r)) (position (h enemy)) \<le> 80})
       \<and> (\<forall>r. r \<in> set enemies \<and> isAlive (h r) \<and>
                distanceBetween (position (h r)) (position (h enemy)) \<le> 80 \<longrightarrow>
              health (h' r) = health (damageHealth (h r) (explosionDamageAt td 80
                                 (distanceBetween (position (h r)) (position (h enemy)))))
              \<and> isAlive (h' r) = isAlive (damageHealth (h r) (explosionDamageAt td 80
                                 (distanceBetween (position (h r)) (position (h enemy)))))
              \<and> (status (h r) = Some Oil \<longrightarrow> status (h' r) = None))
       \<and> (\<forall>r. r \<noteq> enemy \<and> \<not> (r \<in> set enemies \<and> isAlive (h r) \<and>
                distanceBetween (position (h r)) (position (h enemy)) \<le> 80) \<longrightarrow> h' r = h r)
       \<and> status (h' enemy) = None
       \<and> distanceBetween (position (h enemy)) (position (h enemy)) = 0
       \<and> explosionDamageAt td 80 0 = td
       \<and> explosionDamageAt td 80 80 = jfloor (td / 2)"
proof -
  let ?pos = "position (h enemy)"
  let ?in = "\<lambda>r. r \<in> set enemies \<and> isAlive (h r) \<and> distanceBetween (position (h r)) ?pos \<le> 80"
  obtain aff h1 where loop: "explosionLoop ?pos td 80 enemies ([enemy], h) = (aff, h1)"
    by (cases "explosionLoop ?pos td 80 enemies ([enemy], h)")
  have h1: "h1 r = (if ?in r then explosionHit (h r) (explosionDamageAt td 80
                      (distanceBetween (position (h r)) ?pos)) else h r)" for r
    using explosionLoop_heap[OF assms(6), of ?pos td 80 "[enemy]" h r] loop
    by (simp add: getCenter_def)
  have aff: "set aff = {enemy} \<union> {r \<in> set enemies. isAlive (h r) \<and>
                    distanceBetween (position (h r)) ?pos \<le> 80}"
    using explosionLoop_affected[OF assms(6), of ?pos td 80 "[enemy]" h] loop
    by (simp add: getCenter_def)
  have res: "resolveHit h now enemies hit rng =
      (Reacted \<lparr>rr_type = Explosion,
                rr_config = \<lparr>trigger = (Oil, Fire), damageMultiplier = Some (3 / 2),
                             freezeDuration = None, explosionRadius = Some 80\<rparr>,
                rr_position = ?pos, rr_damage = td, rr_affectedEnemies = aff\<rparr>,
       h1(enemy := clearStatus (h1 enemy)), stl rng)"
    using assms(1-5,7) loop
    by (simp add: resolveHit_def checkAndTriggerReaction_def matchReaction_oil_fire
        executeReaction_def js_or_def Let_def getCenter_def)
  with assms(8) have out: "outcome = Reacted \<lparr>rr_type = Explosion,
                rr_config = \<lparr>trigger = (Oil, Fire), damageMultiplier = Some (3 / 2),
                             freezeDuration = None, explosionRadius = Some 80\<rparr>,
                rr_position = ?pos, rr_damage = td, rr_affectedEnemies = aff\<rparr>"
    and h': "h' = h1(enemy := clearStatus (h1 enemy))" by simp_all
  have rep: "representable td" unfolding assms(7) by (rule representable_total)
  have c0: "explosionDamageAt td 80 0 = td"
    using explosionDamageAt_centre[OF rep, of 80] by (simp add: assms(7) jfloor_jfloor)
  have c1: "explosionDamageAt td 80 80 = jfloor (td / 2)"
    by (rule explosionDamageAt_edge[OF rep]) simp
  have A: "\<exists>res. outcome = Reacted res \<and> rr_type res = Explosion \<and> rr_damage res = td
            \<and> set (rr_affectedEnemies res) =
                {enemy} \<union> {r \<in> set enemies. isAlive (h r) \<and>
                    distanceBetween (position (h r)) ?pos \<le> 80}"
    using out aff by simp
  have B: "health (h' r) = health (damageHealth (h r) (explosionDamageAt td 80
                                 (distanceBetween (position (h r)) ?pos)))
              \<and> isAlive (h' r) = isAlive (damageHealth (h r) (explosionDamageAt td 80
                                 (distanceBetween (position (h r)) ?pos)))
              \<and> (status (h r) = Some Oil \<longrightarrow> status (h' r) = None)" if "?in r" for r
    using that by (auto simp: h' h1 explosionHit_def Let_def)
  have C: "h' r = h r" if "r \<noteq> enemy" "\<not> ?in r" for r
    using that by (auto simp: h' h1)
  have D: "status (h' enemy) = None" by (simp add: h' clearStatus_def)
  from A B C D c0 c1 distanceBetween_self show ?thesis by blast
qed


lemma resolveHit_explosion_heap:
  assumes "status (h enemy) = Some Oil"
    and "hr_target hit = enemy" and "hr_element hit = Fire" and "hr_damage hit = B"
    and "\<not> tryEvade (h enemy) (shd rng)"
    and "distinct enemies"
  shows "fst (snd (resolveHit h now enemies hit rng)) r =
     (let e = (if r \<in> set enemies \<and> isAlive (h r) \<and>
                  distanceBetween (position (h r)) (position (h enemy)) \<le> 80
               then explosionHit (h r) (explosionDamageAt (jfloor (jmul B (3 / 2))) 80
                      (distanceBetween (position (h r)) (position (h enemy))))
               else h r)
      in if r = enemy then clearStatus e else e)"
proof -
  let ?pos = "position (h enemy)"
  let ?td = "jfloor (jmul B (3 / 2))"
  obtain aff h1 where loop: "explosionLoop ?pos ?td 80 enemies ([enemy], h) = (aff, h1)"
    by (cases "explosionLoop ?pos ?td 80 enemies ([enemy], h)")
  have h1: "h1 r = (if r \<in> set enemies \<and> isAlive (h r) \<and>
                  distanceBetween (position (h r)) ?pos \<le> 80 then explosionHit (h r) (explosionDamageAt ?td 80
                      (distanceBetween (position (h r)) ?pos)) else h r)" for r
    using explosionLoop_heap[OF assms(6), of ?pos ?td 80 "[enemy]" h r] loop
    by (simp add: getCenter_def)
  have "fst (snd (resolveHit h now enemies hit rng)) = h1(enemy := clearStatus (h1 enemy))"
    using assms(1-5) loop
    by (simp add: resolveHit_def checkAndTriggerReaction_def matchReaction_oil_fire
        executeReaction_def js_or_def Let_def getCenter_def)
  then show ?thesis by (simp add: h1 Let_def)
qed

lemma jsqrt_6400: "jsqrt 6400 = 80"
  by code_simp

lemma jsqrt_6561: "jsqrt 6561 = 81"
  by code_simp

lemma explosionHeap_distances:
  "distanceBetween (position (explosionHeap 0)) (position (explosionHeap 0)) = 0"
  "distanceBetween (position (explosionHeap 2)) (position (explosionHeap 0)) = 80"
  "distanceBetween (position (explosionHeap 3)) (position (explosionHeap 0)) = 81"
  by (simp_all add: explosionHeap_def singleHeap_def exampleEnemy_def applyStatus_def
      distanceBetween_def jsub_def jmul_def jadd_def fl_0 fl_numeral jsqrt_0 jsqrt_6400
      jsqrt_6561)

lemma explosionHeap_fields:
  "isAlive (explosionHeap 0)" "isAlive (explosionHeap 2)" "isAlive (explosionHeap 3)"
  "health (explosionHeap 0) = 500" "health (explosionHeap 2) = 500"
  "health (explosionHeap 3) = 500"
  "status (explosionHeap 0) = Some Oil" "status (explosionHeap 2) = None"
  "evasionChance (explosionHeap 0) = 0"
  by (simp_all add: explosionHeap_def singleHeap_def exampleEnemy_def applyStatus_def)

lemma explosion_example_damage:
  "jfloor (jmul 30 (3 / 2)) = 45" "explosionDamageAt 45 80 0 = 45" "explosionDamageAt 45 80 80 = 22"
  by code_simp+

text \<open>
  C4 as stated fails at the edge when the full damage is odd. Base damage 30 gives a full
  reaction damage of 45; the enemy at distance exactly 80 goes from 500 health to 478. It
  took 22, and half of 45 is 22.5.
\<close>

theorem explosion_edge_counterexample:
  "jfloor (jmul 30 (3 / 2)) = 45
   \<and> distanceBetween (position (explosionHeap 2)) (position (explosionHeap 0)) = 80
   \<and> health (explosionHeap 2) = 500
   \<and> health (fst (snd (resolveHit explosionHeap 0 [0, 2, 3] (exampleHit 0 Fire 30)
        (sconst (1 / 2)))) 2) = 478"
proof -
  have a: "status (explosionHeap 0) = Some Oil"
    by (simp add: explosionHeap_def applyStatus_def)
  have b: "hr_target (exampleHit 0 Fire 30) = 0" "hr_element (exampleHit 0 Fire 30) = Fire"
    "hr_damage (exampleHit 0 Fire 30) = 30"
    by (simp_all add: exampleHit_def)
  have c: "\<not> tryEvade (explosionHeap 0) (shd (sconst (1 / 2)))"
    by (simp add: tryEvade_def explosionHeap_def applyStatus_def exampleEnemy_def)
  have d: "distinct [0::nat, 2, 3]" by simp
  have e: "jsub 500 22 = 478" by code_simp
  have "health (fst (snd (resolveHit explosionHeap 0 [0, 2, 3] (exampleHit 0 Fire 30)
        (sconst (1 / 2)))) 2) = 478"
    unfolding resolveHit_explosion_heap[where h = explosionHeap and enemy = 0, OF a b c d]
    by (simp add: explosionHeap_distances explosion_example_damage explosionHit_def
        damageHealth_def Let_def explosionHeap_fields e)
  moreover have "health (explosionHeap 2) = 500"
    by (simp add: explosionHeap_def exampleEnemy_def)
  ultimately show ?thesis using explosionHeap_distances(2) explosion_example_damage(1) by simp
qed


theorem explosion_falloff_witness:
  "health (fst (snd (resolveHit explosionHeap 0 [0, 2, 3] (exampleHit 0 Fire 30)
        (sconst (1 / 2)))) 0) = 455
   \<and> status (fst (snd (resolveHit explosionHeap 0 [0, 2, 3] (exampleHit 0 Fire 30)
        (sconst (1 / 2)))) 0) = None
   \<and> health (fst (snd (resolveHit explosionHeap 0 [0, 2, 3] (exampleHit 0 Fire 30)
        (sconst (1 / 2)))) 2) = 478
   \<and> fst (snd (resolveHit explosionHeap 0 [0, 2, 3] (exampleHit 0 Fire 30)
        (sconst (1 / 2)))) 3 = explosionHeap 3"
proof -
  obtain outcome h' rng' where r: "resolveHit explosionHeap 0 [0, 2, 3] (exampleHit 0 Fire 30)
        (sconst (1 / 2)) = (outcome, h', rng')"
    by (cases "resolveHit explosionHeap 0 [0, 2, 3] (exampleHit 0 Fire 30) (sconst (1 / 2))")
  have a: "status (explosionHeap 0) = Some Oil" by (rule explosionHeap_fields)
  have b: "hr_target (exampleHit 0 Fire 30) = 0" "hr_element (exampleHit 0 Fire 30) = Fire"
    "hr_damage (exampleHit 0 Fire 30) = 30"
    by (simp_all add: exampleHit_def)
  have c: "\<not> tryEvade (explosionHeap 0) (shd (sconst (1 / 2)))"
    by (simp add: tryEvade_def explosionHeap_fields)
  have d: "distinct [0::nat, 2, 3]" by simp
  have t: "(45::number) = jfloor (jmul 30 (3 / 2))" by (simp add: explosion_example_damage)
  have e: "jsub 500 22 = 478" "jsub 500 45 = 455" by code_simp+
  note T = explosion_falloff[where h = explosionHeap and enemy = 0, OF a b c d t r]
  from T have 0: "health (h' 0) = 455 \<and> status (h' 0) = None"
    by (simp add: explosionHeap_distances explosionHeap_fields explosion_example_damage
        damageHealth_def Let_def e)
  from T have 2: "health (h' 2) = 478"
    by (simp add: explosionHeap_distances explosionHeap_fields explosion_example_damage
        damageHealth_def Let_def e)
  from T have 3: "h' 3 = explosionHeap 3"
    by (simp add: explosionHeap_distances)
  from 0 2 3 r show ?thesis by simp
qed



section \<open>Target selection\<close>

lemma findTargetLoop_bestSoFar:
  assumes "bestSoFar h t seen st"
    and "\<forall>e \<in> set rs. isCandidate h t e \<longrightarrow> 0 \<le> priority (h e)"
  shows "bestSoFar h t (seen @ rs) (findTargetLoop h t rs st)"
  using assms
proof (induction rs arbitrary: seen st)
  case Nil
  then show ?case by simp
next
  case (Cons a rs)
  obtain tg bp cd where st: "st = (tg, bp, cd)" by (cases st)
  have pr: "\<forall>e \<in> set rs. isCandidate h t e \<longrightarrow> 0 \<le> priority (h e)"
    using Cons.prems(2) by simp
  have step: "bestSoFar h t (seen @ [a])
     (if \<not> isAlive (h a) then (tg, bp, cd)
      else if towerRange t < getDistanceTo h t a then (tg, bp, cd)
      else if bp < priority (h a) \<or> (priority (h a) = bp \<and>
                (case cd of None \<Rightarrow> True | Some c \<Rightarrow> getDistanceTo h t a < c))
      then (Some a, priority (h a), Some (getDistanceTo h t a))
      else (tg, bp, cd))"
  proof (cases "isCandidate h t a")
    case False
    then show ?thesis using Cons.prems(1)
      by (cases tg) (auto simp: st bestSoFar_def isCandidate_def)
  next
    case True
    then have p0: "0 \<le> priority (h a)" using Cons.prems(2) by simp
    show ?thesis
    proof (cases tg)
      case None
      then show ?thesis using Cons.prems(1) True p0
        by (auto simp: st bestSoFar_def isCandidate_def)
    next
      case (Some b)
      then show ?thesis using Cons.prems(1) True
        by (auto simp: st bestSoFar_def isCandidate_def)
    qed
  qed
  have "findTargetLoop h t (a # rs) st = findTargetLoop h t rs
     (if \<not> isAlive (h a) then (tg, bp, cd)
      else if towerRange t < getDistanceTo h t a then (tg, bp, cd)
      else if bp < priority (h a) \<or> (priority (h a) = bp \<and>
                (case cd of None \<Rightarrow> True | Some c \<Rightarrow> getDistanceTo h t a < c))
      then (Some a, priority (h a), Some (getDistanceTo h t a))
      else (tg, bp, cd))"
    by (simp add: st Let_def)
  with Cons.IH[OF step pr] show ?case by simp
qed


lemma isInRange_update [simp]:
  "isInRange h (t\<lparr>isSilenced := b\<rparr>) c = isInRange h t c"
  by (simp add: isInRange_def getDistanceTo_def)

text \<open>
  C5. A tower whose current target is alive and in range when target selection starts comes
  out of \<open>findTarget\<close> unchanged, whatever the enemy list holds, an enemy of higher priority
  in range included; and \<open>tryFire\<close> after it, fire or not, leaves that target in place. So
  the target is the same enemy on every tick for as long as it stays alive and in range.
\<close>

theorem target_stickiness:
  assumes "currentTarget t = Some c" and "isAlive (h c)" and "isInRange h t c"
  shows "findTarget h t enemies = t
       \<and> currentTarget (snd (tryFire h (findTarget h t enemies) currentTime)) = Some c"
  using assms
  by (auto simp: findTarget_def tryFire_def Let_def triggerFireAnimation_def)

lemma targetHeap_facts:
  "isAlive (targetHeap 0)" "isAlive (targetHeap 2)" "\<not> isAlive (targetHeap 3)"
  "priority (targetHeap 0) = 1" "priority (targetHeap 2) = 3"
  "getDistanceTo targetHeap exampleTower 0 = 0" "getDistanceTo targetHeap exampleTower 2 = 80"
  "getDistanceTo targetHeap (exampleTower\<lparr>currentTarget := Some 0\<rparr>) 0 = 0"
  "getDistanceTo targetHeap (exampleTower\<lparr>currentTarget := Some 0\<rparr>) 2 = 80"
  by (simp_all add: targetHeap_def singleHeap_def exampleEnemy_def exampleTower_def
      getDistanceTo_def getCenter_def distanceBetween_def jsub_def jmul_def jadd_def fl_0
      fl_numeral jsqrt_0 jsqrt_6400)

theorem target_stickiness_witness:
  "priority (targetHeap 0) < priority (targetHeap 2)
   \<and> isAlive (targetHeap 2) \<and> isInRange targetHeap (exampleTower\<lparr>currentTarget := Some 0\<rparr>) 2
   \<and> currentTarget (findTarget targetHeap (exampleTower\<lparr>currentTarget := Some 0\<rparr>) [0, 2, 3])
       = Some 0"
proof -
  let ?t = "exampleTower\<lparr>currentTarget := Some 0\<rparr>"
  have a: "currentTarget ?t = Some 0" by simp
  have b: "isAlive (targetHeap 0)" by (rule targetHeap_facts)
  have c: "isInRange targetHeap ?t 0"
    by (simp add: isInRange_def targetHeap_facts) (simp add: exampleTower_def)
  have d: "isInRange targetHeap ?t 2"
    by (simp add: isInRange_def targetHeap_facts) (simp add: exampleTower_def)
  from target_stickiness[where h = targetHeap and t = ?t and c = 0, OF a b c] d
  show ?thesis by (simp add: targetHeap_facts)
qed

text \<open>
  C6. A tower with no valid current target (none, or one that is dead or out of range)
  scans the enemy list, skipping the dead and those farther than its range. Enemy
  priorities are not negative (the constructor takes them from the type table: 1, 2, 3 or
  5). If any candidate remains, the new target is a candidate of maximal priority and,
  among the candidates of that priority, of least distance. If none remains the target is
  none and \<open>tryFire\<close> returns no projectile.
\<close>

theorem target_selection:
  assumes "\<not> (\<exists>c. currentTarget t = Some c \<and> isAlive (h c) \<and> isInRange h t c)"
    and "\<forall>e \<in> set enemies. isAlive (h e) \<and> isInRange h t e \<longrightarrow> 0 \<le> priority (h e)"
  shows "case currentTarget (findTarget h t enemies) of
           None \<Rightarrow> (\<forall>e \<in> set enemies. \<not> (isAlive (h e) \<and> isInRange h t e))
                    \<and> fst (tryFire h (findTarget h t enemies) currentTime) = None
         | Some b \<Rightarrow> b \<in> set enemies \<and> isAlive (h b) \<and> isInRange h t b
                    \<and> (\<forall>e \<in> set enemies. isAlive (h e) \<and> isInRange h t e \<longrightarrow>
                          priority (h e) < priority (h b) \<or>
                          (priority (h e) = priority (h b) \<and>
                           getDistanceTo h t b \<le> getDistanceTo h t e))"
proof -
  have start: "bestSoFar h t [] (None, 0, None)" by (simp add: bestSoFar_def)
  have pr: "\<forall>e \<in> set enemies. isCandidate h t e \<longrightarrow> 0 \<le> priority (h e)"
    using assms(2) by (simp add: isCandidate_def isInRange_def)
  obtain tg bp cd where l: "findTargetLoop h t enemies (None, 0, None) = (tg, bp, cd)"
    by (cases "findTargetLoop h t enemies (None, 0, None)")
  from findTargetLoop_bestSoFar[OF start pr] l
  have best: "bestSoFar h t enemies (tg, bp, cd)" by simp
  have ft: "findTarget h t enemies = t\<lparr>currentTarget := tg\<rparr>"
    using assms(1) l by (auto simp: findTarget_def split: option.splits)
  show ?thesis
  proof (cases tg)
    case None
    with best have "\<forall>e \<in> set enemies. \<not> (isAlive (h e) \<and> isInRange h t e)"
      by (simp add: bestSoFar_def isCandidate_def isInRange_def)
    moreover have "fst (tryFire h (t\<lparr>currentTarget := None\<rparr>) currentTime) = None"
      by (simp add: tryFire_def Let_def)
    ultimately show ?thesis by (simp add: ft None)
  next
    case (Some b)
    with best show ?thesis
      by (simp add: ft bestSoFar_def isCandidate_def isInRange_def getDistanceTo_def)
  qed
qed

theorem target_selection_witness:
  "currentTarget (findTarget targetHeap exampleTower [0, 2, 3]) = Some 2
   \<and> currentTarget (findTarget targetHeap exampleTower [3]) = None
   \<and> fst (tryFire targetHeap (findTarget targetHeap exampleTower [3]) 5000) = None"
proof -
  have a: "\<not> (\<exists>c. currentTarget exampleTower = Some c \<and> isAlive (targetHeap c)
              \<and> isInRange targetHeap exampleTower c)"
    by (simp add: exampleTower_def)
  have r: "isInRange targetHeap exampleTower 0" "isInRange targetHeap exampleTower 2"
    by (simp_all add: isInRange_def targetHeap_facts) (simp_all add: exampleTower_def)
  have b: "\<forall>e \<in> set [0, 2, 3]. isAlive (targetHeap e) \<and> isInRange targetHeap exampleTower e
             \<longrightarrow> 0 \<le> priority (targetHeap e)"
    by (simp add: targetHeap_facts)
  have b3: "\<forall>e \<in> set [3]. isAlive (targetHeap e) \<and> isInRange targetHeap exampleTower e
             \<longrightarrow> 0 \<le> priority (targetHeap e)"
    by (simp add: targetHeap_facts)
  have 1: "currentTarget (findTarget targetHeap exampleTower [0, 2, 3]) = Some 2"
    using target_selection[where h = targetHeap and t = exampleTower, OF a b, of 5000] r
    by (auto simp: targetHeap_facts split: option.splits)
  have 2: "currentTarget (findTarget targetHeap exampleTower [3]) = None
      \<and> fst (tryFire targetHeap (findTarget targetHeap exampleTower [3]) 5000) = None"
    using target_selection[where h = targetHeap and t = exampleTower, OF a b3, of 5000]
    by (auto simp: targetHeap_facts split: option.splits)
  from 1 2 show ?thesis by simp
qed

lemma Enemy_new_priority:
  "1 \<le> priority (Enemy_new start etype waveNumber config res)"
  by (cases etype) (simp_all add: Enemy_new_def Let_def)


section \<open>Enemies attacking towers\<close>

lemma adjacentTowerIndex_Some:
  assumes "adjacentTowerIndex e ts k = Some i"
  shows "k \<le> i \<and> i - k < length ts \<and> isAlive (ts ! (i - k)) \<and> inMeleeReach (ts ! (i - k)) e
       \<and> (\<forall>j < i - k. \<not> (isAlive (ts ! j) \<and> inMeleeReach (ts ! j) e))"
  using assms
proof (induction ts arbitrary: k)
  case Nil
  then show ?case by simp
next
  case (Cons a ts)
  show ?case
  proof (cases "isAlive a \<and> inMeleeReach a e")
    case True
    with Cons.prems have "i = k" by (auto simp: inMeleeReach_def split: if_splits)
    with True show ?thesis by simp
  next
    case False
    with Cons.prems have rec: "adjacentTowerIndex e ts (Suc k) = Some i"
      by (auto simp: inMeleeReach_def split: if_splits)
    from Cons.IH[OF rec] have ih: "Suc k \<le> i" "i - Suc k < length ts"
      "isAlive (ts ! (i - Suc k))" "inMeleeReach (ts ! (i - Suc k)) e"
      "\<forall>j < i - Suc k. \<not> (isAlive (ts ! j) \<and> inMeleeReach (ts ! j) e)" by simp_all
    from ih(1) have ik: "i - k = Suc (i - Suc k)" by simp
    have "\<not> (isAlive ((a # ts) ! j) \<and> inMeleeReach ((a # ts) ! j) e)" if "j < i - k" for j
      using that False ih(5) ik by (cases j) auto
    then show ?thesis using ih ik by simp
  qed
qed

lemma adjacentTowerIndex_None:
  "adjacentTowerIndex e ts k = None \<longleftrightarrow>
     (\<forall>j < length ts. \<not> (isAlive (ts ! j) \<and> inMeleeReach (ts ! j) e))"
proof (induction ts arbitrary: k)
  case Nil
  then show ?case by simp
next
  case (Cons a ts)
  have "(\<forall>j < length (a # ts). \<not> (isAlive ((a # ts) ! j) \<and> inMeleeReach ((a # ts) ! j) e))
        \<longleftrightarrow> \<not> (isAlive a \<and> inMeleeReach a e)
             \<and> (\<forall>j < length ts. \<not> (isAlive (ts ! j) \<and> inMeleeReach (ts ! j) e))"
    by (auto simp: All_less_Suc2 simp del: All_less_Suc)
  then show ?case using Cons.IH[of "Suc k"]
    by (auto simp: inMeleeReach_def)
qed

lemma length_handleTowerDestruction [simp]:
  "length (handleTowerDestruction ts) = length ts"
  by (simp add: handleTowerDestruction_def Let_def)

lemma hp_handleTowerDestruction:
  "i < length ts \<Longrightarrow> hp (handleTowerDestruction ts ! i) = hp (ts ! i)
     \<and> isAlive (handleTowerDestruction ts ! i) = isAlive (ts ! i)"
  by (simp add: handleTowerDestruction_def Let_def setSynergies_def)

lemma attackTower_other:
  "enemyType e \<noteq> Breaker \<Longrightarrow> attackTower e ct = (attackDamage e, e\<lparr>lastAttackTime := ct\<rparr>)"
  by (simp add: attackTower_def Let_def)

lemma enemyAttackTurn_other:
  assumes "r' \<noteq> r" and "enemyAttackTurn ct (h, ts, ps) r = (h', ts', ps')"
  shows "h' r' = h r' \<and> attacksBy r' ps' = attacksBy r' ps"
  using assms
  by (auto simp: enemyAttackTurn_def attacksBy_def Let_def split: if_splits option.splits prod.splits)

lemma processEnemyAttacks_other:
  assumes "r' \<notin> set rs" and "processEnemyAttacks ct rs (h, ts, ps) = (h', ts', ps')"
  shows "h' r' = h r' \<and> attacksBy r' ps' = attacksBy r' ps"
  using assms
proof (induction rs arbitrary: h ts ps)
  case Nil
  then show ?case by (simp add: processEnemyAttacks_def)
next
  case (Cons a rs)
  obtain h1 ts1 ps1 where t: "enemyAttackTurn ct (h, ts, ps) a = (h1, ts1, ps1)"
    by (cases "enemyAttackTurn ct (h, ts, ps) a")
  from Cons.prems(1) have na: "r' \<noteq> a" and nr: "r' \<notin> set rs" by auto
  from Cons.prems(2) t have "processEnemyAttacks ct rs (h1, ts1, ps1) = (h', ts', ps')"
    by (simp add: processEnemyAttacks_def)
  from Cons.IH[OF nr this] enemyAttackTurn_other[OF na t] show ?case by simp
qed


lemma enemyAttackTurn_attack:
  assumes "isAlive (h r)" and "enemyType (h r) \<noteq> Breaker" and "canAttackTower (h r) ct"
    and "adjacentTowerIndex (h r) ts 0 = Some i"
    and "enemyAttackTurn ct (h, ts, ps) r = (h', ts', ps')"
  shows "ps' = ps @ [\<lparr>ta_enemy = r, ta_tower = i, ta_damage = attackDamage (h r)\<rparr>]
       \<and> h' = h(r := (h r)\<lparr>lastAttackTime := ct\<rparr>)
       \<and> length ts' = length ts
       \<and> hp (ts' ! i) = hp (snd (Tower_takeDamage (ts ! i) (attackDamage (h r))))
       \<and> isAlive (ts' ! i) = isAlive (snd (Tower_takeDamage (ts ! i) (attackDamage (h r))))"
proof -
  from adjacentTowerIndex_Some[OF assms(4)] have i: "i < length ts" by simp
  obtain destroyed tw where td: "Tower_takeDamage (ts ! i) (attackDamage (h r)) = (destroyed, tw)"
    by (cases "Tower_takeDamage (ts ! i) (attackDamage (h r))")
  from assms td have r: "h' = h(r := (h r)\<lparr>lastAttackTime := ct\<rparr>)"
    "ps' = ps @ [\<lparr>ta_enemy = r, ta_tower = i, ta_damage = attackDamage (h r)\<rparr>]"
    "ts' = (if destroyed then handleTowerDestruction (ts[i := tw]) else ts[i := tw])"
    by (auto simp: enemyAttackTurn_def attackTower_other Let_def)
  from r(3) i have "length ts' = length ts" "hp (ts' ! i) = hp tw" "isAlive (ts' ! i) = isAlive tw"
    by (auto simp: hp_handleTowerDestruction)
  with r td show ?thesis by simp
qed

lemma enemyAttackTurn_skip:
  assumes "\<not> isAlive (h r) \<or> enemyType (h r) = Breaker \<or> \<not> canAttackTower (h r) ct
           \<or> adjacentTowerIndex (h r) ts 0 = None"
  shows "enemyAttackTurn ct (h, ts, ps) r = (h, ts, ps)"
  using assms by (auto simp: enemyAttackTurn_def)

lemma Tower_takeDamage_alive:
  assumes "isAlive t"
  shows "fst (Tower_takeDamage t d) = (jsub (hp t) d \<le> 0)"
    and "hp (snd (Tower_takeDamage t d)) = (if jsub (hp t) d \<le> 0 then 0 else jsub (hp t) d)"
    and "isAlive (snd (Tower_takeDamage t d)) = (0 < jsub (hp t) d)"
    and "position (snd (Tower_takeDamage t d)) = position t"
  using assms
  by (auto simp: Tower_takeDamage_def triggerDamageAnimation_def Let_def)

lemma nth_handleTowerDestruction:
  assumes "j < length ts"
  shows "hp (handleTowerDestruction ts ! j) = hp (ts ! j)"
    and "isAlive (handleTowerDestruction ts ! j) = isAlive (ts ! j)"
    and "position (handleTowerDestruction ts ! j) = position (ts ! j)"
  using assms by (simp_all add: handleTowerDestruction_def Let_def setSynergies_def)

lemma enemyAttackTurn_towers_attack:
  assumes "isAlive (h r)" and "enemyType (h r) \<noteq> Breaker" and "canAttackTower (h r) ct"
    and "adjacentTowerIndex (h r) ts 0 = Some i"
    and "enemyAttackTurn ct (h, ts, ps) r = (h', ts', ps')"
  shows "length ts' = length ts"
    and "hp (ts' ! i) = (if jsub (hp (ts ! i)) (attackDamage (h r)) \<le> 0 then 0
                         else jsub (hp (ts ! i)) (attackDamage (h r)))"
    and "isAlive (ts' ! i) = (0 < jsub (hp (ts ! i)) (attackDamage (h r)))"
    and "\<forall>j < length ts. j \<noteq> i \<longrightarrow>
           hp (ts' ! j) = hp (ts ! j) \<and> isAlive (ts' ! j) = isAlive (ts ! j)"
    and "\<forall>j < length ts. position (ts' ! j) = position (ts ! j)"
proof -
  from adjacentTowerIndex_Some[OF assms(4)] have i: "i < length ts" "isAlive (ts ! i)" by simp_all
  obtain destroyed tw where td: "Tower_takeDamage (ts ! i) (attackDamage (h r)) = (destroyed, tw)"
    by (cases "Tower_takeDamage (ts ! i) (attackDamage (h r))")
  from Tower_takeDamage_alive[OF i(2), of "attackDamage (h r)"] td
  have tw: "hp tw = (if jsub (hp (ts ! i)) (attackDamage (h r)) \<le> 0 then 0
                     else jsub (hp (ts ! i)) (attackDamage (h r)))"
    "isAlive tw = (0 < jsub (hp (ts ! i)) (attackDamage (h r)))"
    "position tw = position (ts ! i)" by simp_all
  from assms td
  have ts': "ts' = (if destroyed then handleTowerDestruction (ts[i := tw]) else ts[i := tw])"
    by (auto simp: enemyAttackTurn_def attackTower_other Let_def)
  then show "length ts' = length ts" by simp
  have nth: "hp (ts' ! j) = hp (ts[i := tw] ! j) \<and> isAlive (ts' ! j) = isAlive (ts[i := tw] ! j)
           \<and> position (ts' ! j) = position (ts[i := tw] ! j)" if "j < length ts" for j
    using that ts' by (simp add: nth_handleTowerDestruction)
  from nth[OF i(1)] i(1) tw
  show "hp (ts' ! i) = (if jsub (hp (ts ! i)) (attackDamage (h r)) \<le> 0 then 0
                         else jsub (hp (ts ! i)) (attackDamage (h r)))"
    "isAlive (ts' ! i) = (0 < jsub (hp (ts ! i)) (attackDamage (h r)))" by simp_all
  from nth show "\<forall>j < length ts. j \<noteq> i \<longrightarrow>
           hp (ts' ! j) = hp (ts ! j) \<and> isAlive (ts' ! j) = isAlive (ts ! j)" by simp
  from nth tw(3) i(1) show "\<forall>j < length ts. position (ts' ! j) = position (ts ! j)"
    by (simp add: nth_list_update)
qed

lemma enemyAttackTurn_towers:
  assumes "enemyAttackTurn ct (h, ts, ps) r = (h', ts', ps')"
  shows "length ts' = length ts \<and> set ps \<subseteq> set ps' \<and>
         (\<forall>j < length ts.
            position (ts' ! j) = position (ts ! j) \<and>
            (isAlive (ts' ! j) \<longrightarrow> isAlive (ts ! j)) \<and>
            ((\<forall>a \<in> set ps'. ta_tower a \<noteq> j) \<longrightarrow>
               hp (ts' ! j) = hp (ts ! j) \<and> isAlive (ts' ! j) = isAlive (ts ! j)))"
proof (cases "isAlive (h r) \<and> enemyType (h r) \<noteq> Breaker \<and> canAttackTower (h r) ct
              \<and> adjacentTowerIndex (h r) ts 0 \<noteq> None")
  case False
  then have "enemyAttackTurn ct (h, ts, ps) r = (h, ts, ps)"
    by (intro enemyAttackTurn_skip) auto
  with assms show ?thesis by simp
next
  case True
  then obtain i where i: "adjacentTowerIndex (h r) ts 0 = Some i" by auto
  from True have c: "isAlive (h r)" "enemyType (h r) \<noteq> Breaker" "canAttackTower (h r) ct"
    by simp_all
  note a = enemyAttackTurn_towers_attack[OF c i assms]
  from enemyAttackTurn_attack[OF c i assms]
  have ps': "ps' = ps @ [\<lparr>ta_enemy = r, ta_tower = i, ta_damage = attackDamage (h r)\<rparr>]" by simp
  from adjacentTowerIndex_Some[OF i] have al: "isAlive (ts ! i)" by simp
  show ?thesis
  proof (intro conjI allI impI)
    show "length ts' = length ts" by (rule a(1))
    show "set ps \<subseteq> set ps'" using ps' by auto
  next
    fix j assume j: "j < length ts"
    show "position (ts' ! j) = position (ts ! j)" using a(5) j by simp
    show "isAlive (ts ! j)" if "isAlive (ts' ! j)"
      using that a(4) j al by (cases "j = i") auto
  next
    fix j assume j: "j < length ts" and n: "\<forall>a \<in> set ps'. ta_tower a \<noteq> j"
    from n ps' have "j \<noteq> i" by auto
    with a(4) j show "hp (ts' ! j) = hp (ts ! j)" "isAlive (ts' ! j) = isAlive (ts ! j)"
      by simp_all
  qed
qed

lemma processEnemyAttacks_towers:
  assumes "processEnemyAttacks ct rs (h, ts, ps) = (h', ts', ps')"
  shows "length ts' = length ts \<and> set ps \<subseteq> set ps' \<and>
         (\<forall>j < length ts.
            position (ts' ! j) = position (ts ! j) \<and>
            (isAlive (ts' ! j) \<longrightarrow> isAlive (ts ! j)) \<and>
            ((\<forall>a \<in> set ps'. ta_tower a \<noteq> j) \<longrightarrow>
               hp (ts' ! j) = hp (ts ! j) \<and> isAlive (ts' ! j) = isAlive (ts ! j)))"
  using assms
proof (induction rs arbitrary: h ts ps)
  case Nil
  then show ?case by (simp add: processEnemyAttacks_def)
next
  case (Cons a rs)
  obtain h1 ts1 ps1 where t: "enemyAttackTurn ct (h, ts, ps) a = (h1, ts1, ps1)"
    by (cases "enemyAttackTurn ct (h, ts, ps) a")
  from Cons.prems t have r: "processEnemyAttacks ct rs (h1, ts1, ps1) = (h', ts', ps')"
    by (simp add: processEnemyAttacks_def)
  note s = enemyAttackTurn_towers[OF t]
  note ih = Cons.IH[OF r]
  from s ih have len: "length ts1 = length ts" "length ts' = length ts"
    and sub: "set ps \<subseteq> set ps1" "set ps1 \<subseteq> set ps'" by simp_all
  show ?case
  proof (intro conjI allI impI)
    show "length ts' = length ts" by (rule len(2))
    show "set ps \<subseteq> set ps'" using sub by blast
  next
    fix j assume j: "j < length ts"
    with s ih len show "position (ts' ! j) = position (ts ! j)" by simp
    show "isAlive (ts ! j)" if "isAlive (ts' ! j)" using that s ih len j by simp
  next
    fix j assume j: "j < length ts" and n: "\<forall>a \<in> set ps'. ta_tower a \<noteq> j"
    from n sub have n1: "\<forall>a \<in> set ps1. ta_tower a \<noteq> j" by blast
    from s j n1 have "hp (ts1 ! j) = hp (ts ! j)" "isAlive (ts1 ! j) = isAlive (ts ! j)" by simp_all
    moreover from ih j len n have "hp (ts' ! j) = hp (ts1 ! j)" "isAlive (ts' ! j) = isAlive (ts1 ! j)"
      by simp_all
    ultimately show "hp (ts' ! j) = hp (ts ! j)" "isAlive (ts' ! j) = isAlive (ts ! j)" by simp_all
  qed
qed

text \<open>
  C9, as the code has it. The melee pass takes the enemies in list order; \<open>towers1\<close> are the
  towers as the turns of the enemies before \<open>r\<close> have left them, \<open>towers2\<close> the towers after
  the turn of \<open>r\<close>. Up to \<open>r\<close>'s turn no tower has moved or come back to life, and a tower
  that no earlier enemy of the pass attacked has the hit points and the liveness it had
  when the pass began. If \<open>r\<close> is alive, is not a breaker (a ghost counts like any other
  type), its attack cooldown has elapsed, and some tower still living at its turn is within
  1.5 grid cells (the distance is under 60), then the whole pass records exactly one attack by \<open>r\<close>: on the first such
  tower of the list, with \<open>r\<close>'s attack damage. That tower's hit points drop by the damage,
  and it is destroyed, with 0 hit points, when they would not stay above 0; no other tower
  changes its hit points or liveness in this turn; and of \<open>r\<close> only the last attack time
  changes, to the current time. A breaker, a dead enemy, one still on cooldown or one with
  no living tower in reach at its turn records no attack and changes neither itself nor
  any tower.
\<close>

theorem melee_pass:
  assumes "distinct (pre @ r # post)"
    and "processEnemyAttacks ct pre (h, towers, []) = (h1, towers1, popups1)"
    and "processEnemyAttacks ct (pre @ [r]) (h, towers, []) = (h2, towers2, popups2)"
    and "processEnemyAttacks ct (pre @ r # post) (h, towers, []) = (h3, towers3, popups3)"
  shows "length towers1 = length towers
       \<and> (\<forall>j < length towers.
            position (towers1 ! j) = position (towers ! j) \<and>
            (isAlive (towers1 ! j) \<longrightarrow> isAlive (towers ! j)) \<and>
            ((\<forall>a \<in> set popups1. ta_tower a \<noteq> j) \<longrightarrow>
               hp (towers1 ! j) = hp (towers ! j) \<and> isAlive (towers1 ! j) = isAlive (towers ! j)))
       \<and> (isAlive (h r) \<and> enemyType (h r) \<noteq> Breaker \<and> canAttackTower (h r) ct \<and>
          (\<exists>i < length towers1. isAlive (towers1 ! i) \<and> inMeleeReach (towers1 ! i) (h r)) \<longrightarrow>
            (\<exists>i < length towers1.
               isAlive (towers1 ! i) \<and> inMeleeReach (towers1 ! i) (h r) \<and>
               (\<forall>j < i. \<not> (isAlive (towers1 ! j) \<and> inMeleeReach (towers1 ! j) (h r))) \<and>
               attacksBy r popups3 =
                 [\<lparr>ta_enemy = r, ta_tower = i, ta_damage = attackDamage (h r)\<rparr>] \<and>
               hp (towers2 ! i) =
                 (if jsub (hp (towers1 ! i)) (attackDamage (h r)) \<le> 0 then 0
                  else jsub (hp (towers1 ! i)) (attackDamage (h r))) \<and>
               isAlive (towers2 ! i) = (0 < jsub (hp (towers1 ! i)) (attackDamage (h r))) \<and>
               length towers2 = length towers1 \<and>
               (\<forall>j < length towers1. j \<noteq> i \<longrightarrow>
                  hp (towers2 ! j) = hp (towers1 ! j) \<and>
                  isAlive (towers2 ! j) = isAlive (towers1 ! j)) \<and>
               h3 r = (h r)\<lparr>lastAttackTime := ct\<rparr>))
       \<and> (\<not> isAlive (h r) \<or> enemyType (h r) = Breaker \<or> \<not> canAttackTower (h r) ct \<or>
          \<not> (\<exists>i < length towers1. isAlive (towers1 ! i) \<and> inMeleeReach (towers1 ! i) (h r)) \<longrightarrow>
            attacksBy r popups3 = [] \<and> h3 r = h r \<and> towers2 = towers1)"
proof -
  from assms(1) have npre: "r \<notin> set pre" and npost: "r \<notin> set post" by auto
  from processEnemyAttacks_other[OF npre assms(2)]
  have h1: "h1 r = h r" and p1: "attacksBy r popups1 = []" by (simp_all add: attacksBy_def)
  have turn: "enemyAttackTurn ct (h1, towers1, popups1) r = (h2, towers2, popups2)"
    using assms(2,3) by (simp add: processEnemyAttacks_def)
  have rest: "processEnemyAttacks ct post (h2, towers2, popups2) = (h3, towers3, popups3)"
    using assms(3,4) by (simp add: processEnemyAttacks_def)
  from processEnemyAttacks_other[OF npost rest]
  have h3: "h3 r = h2 r" and p3: "attacksBy r popups3 = attacksBy r popups2" by simp_all
  have I: "length towers1 = length towers
       \<and> (\<forall>j < length towers.
            position (towers1 ! j) = position (towers ! j) \<and>
            (isAlive (towers1 ! j) \<longrightarrow> isAlive (towers ! j)) \<and>
            ((\<forall>a \<in> set popups1. ta_tower a \<noteq> j) \<longrightarrow>
               hp (towers1 ! j) = hp (towers ! j) \<and> isAlive (towers1 ! j) = isAlive (towers ! j)))"
    using processEnemyAttacks_towers[OF assms(2)] by simp
  have A: "\<exists>i < length towers1.
               isAlive (towers1 ! i) \<and> inMeleeReach (towers1 ! i) (h r) \<and>
               (\<forall>j < i. \<not> (isAlive (towers1 ! j) \<and> inMeleeReach (towers1 ! j) (h r))) \<and>
               attacksBy r popups3 =
                 [\<lparr>ta_enemy = r, ta_tower = i, ta_damage = attackDamage (h r)\<rparr>] \<and>
               hp (towers2 ! i) =
                 (if jsub (hp (towers1 ! i)) (attackDamage (h r)) \<le> 0 then 0
                  else jsub (hp (towers1 ! i)) (attackDamage (h r))) \<and>
               isAlive (towers2 ! i) = (0 < jsub (hp (towers1 ! i)) (attackDamage (h r))) \<and>
               length towers2 = length towers1 \<and>
               (\<forall>j < length towers1. j \<noteq> i \<longrightarrow>
                  hp (towers2 ! j) = hp (towers1 ! j) \<and>
                  isAlive (towers2 ! j) = isAlive (towers1 ! j)) \<and>
               h3 r = (h r)\<lparr>lastAttackTime := ct\<rparr>"
    if c: "isAlive (h r)" "enemyType (h r) \<noteq> Breaker" "canAttackTower (h r) ct"
      "\<exists>i < length towers1. isAlive (towers1 ! i) \<and> inMeleeReach (towers1 ! i) (h r)"
  proof -
    from c(4) have "adjacentTowerIndex (h r) towers1 0 \<noteq> None"
      by (simp add: adjacentTowerIndex_None)
    then obtain i where i: "adjacentTowerIndex (h1 r) towers1 0 = Some i" by (auto simp: h1)
    from adjacentTowerIndex_Some[OF i]
    have first: "i < length towers1" "isAlive (towers1 ! i)" "inMeleeReach (towers1 ! i) (h r)"
      "\<forall>j < i. \<not> (isAlive (towers1 ! j) \<and> inMeleeReach (towers1 ! j) (h r))"
      by (simp_all add: h1)
    from c(1-3) have c1: "isAlive (h1 r)" "enemyType (h1 r) \<noteq> Breaker" "canAttackTower (h1 r) ct"
      by (simp_all add: h1)
    from enemyAttackTurn_attack[where h = h1 and r = r, OF c1 i turn]
    have e: "attacksBy r popups2 = [\<lparr>ta_enemy = r, ta_tower = i, ta_damage = attackDamage (h r)\<rparr>]"
      "h2 r = (h r)\<lparr>lastAttackTime := ct\<rparr>"
      using p1 by (simp_all add: attacksBy_def h1)
    note t = enemyAttackTurn_towers_attack[where h = h1 and r = r, OF c1 i turn, unfolded h1]
    show ?thesis
      by (rule exI[of _ i]) (use first e t h3 p3 in simp)
  qed
  have B: "attacksBy r popups3 = [] \<and> h3 r = h r \<and> towers2 = towers1"
    if c: "\<not> isAlive (h r) \<or> enemyType (h r) = Breaker \<or> \<not> canAttackTower (h r) ct \<or>
          \<not> (\<exists>i < length towers1. isAlive (towers1 ! i) \<and> inMeleeReach (towers1 ! i) (h r))"
  proof -
    from c have "\<not> isAlive (h1 r) \<or> enemyType (h1 r) = Breaker \<or> \<not> canAttackTower (h1 r) ct
           \<or> adjacentTowerIndex (h1 r) towers1 0 = None"
      by (auto simp: h1 adjacentTowerIndex_None)
    from enemyAttackTurn_skip[where h = h1 and r = r and ps = popups1, OF this] turn
    have "h2 = h1" "towers2 = towers1" "popups2 = popups1" by simp_all
    with h1 h3 p1 p3 show ?thesis by simp
  qed
  from I A B show ?thesis by blast
qed

lemma meleeHeap_facts:
  "isAlive (meleeHeap 0)" "enemyType (meleeHeap 0) = Ghost" "enemyType (meleeHeap 2) = Breaker"
  "isAlive (meleeHeap 2)" "attackDamage (meleeHeap 0) = 8"
  "canAttackTower (meleeHeap 0) 5000" "canAttackTower (meleeHeap 2) 5000"
  "inMeleeReach exampleTower (meleeHeap 0)" "inMeleeReach exampleTower (meleeHeap 2)"
  by (simp_all add: meleeHeap_def singleHeap_def exampleGhost_def exampleEnemy_def
      exampleTower_def canAttackTower_def inMeleeReach_def distanceBetween_def GRID_SIZE_def
      jsub_def jmul_def jadd_def fl_0 fl_numeral jsqrt_0)

lemma meleeTowers_facts:
  "length meleeTowers = 2" "isAlive (meleeTowers ! 0)" "hp (meleeTowers ! 0) = 100"
  "hp (meleeTowers ! Suc 0) = 100" "inMeleeReach (meleeTowers ! 0) (meleeHeap 0)"
  by (simp_all add: meleeTowers_def meleeHeap_def singleHeap_def exampleGhost_def
      exampleTower_def inMeleeReach_def distanceBetween_def GRID_SIZE_def
      jsub_def jmul_def jadd_def fl_0 fl_numeral jsqrt_0)

theorem melee_pass_witness:
  "enemyType (meleeHeap 0) = Ghost
   \<and> attacksBy 0 (snd (snd (processEnemyAttacks 5000 [2, 0] (meleeHeap, meleeTowers, []))))
       = [\<lparr>ta_enemy = 0, ta_tower = 0, ta_damage = 8\<rparr>]
   \<and> map hp (fst (snd (processEnemyAttacks 5000 [2, 0] (meleeHeap, meleeTowers, [])))) = [92, 100]
   \<and> lastAttackTime (fst (processEnemyAttacks 5000 [2, 0] (meleeHeap, meleeTowers, [])) 0)
       = 5000"
proof -
  have p1: "processEnemyAttacks 5000 [2] (meleeHeap, meleeTowers, []) =
              (meleeHeap, meleeTowers, [])"
    by (simp add: processEnemyAttacks_def enemyAttackTurn_def meleeHeap_facts)
  obtain h2 towers2 popups2 where p2:
    "processEnemyAttacks 5000 ([2] @ [0]) (meleeHeap, meleeTowers, []) = (h2, towers2, popups2)"
    by (cases "processEnemyAttacks 5000 ([2] @ [0]) (meleeHeap, meleeTowers, [])")
  then have p3:
    "processEnemyAttacks 5000 ([2] @ 0 # []) (meleeHeap, meleeTowers, []) = (h2, towers2, popups2)"
    by simp
  have d: "distinct ([2] @ (0::nat) # [])" by simp
  have s: "jsub 100 8 = 92" by code_simp
  have pre: "isAlive (meleeHeap 0) \<and> enemyType (meleeHeap 0) \<noteq> Breaker \<and>
      canAttackTower (meleeHeap 0) 5000 \<and>
      (\<exists>i < length meleeTowers.
         isAlive (meleeTowers ! i) \<and> inMeleeReach (meleeTowers ! i) (meleeHeap 0))"
  proof (intro conjI exI[of _ 0])
    show "0 < length meleeTowers" by (simp add: meleeTowers_facts(1))
  qed (simp_all add: meleeHeap_facts(1,2,6) meleeTowers_facts(2,5))
  from melee_pass[where r = 0 and h = meleeHeap, OF d p1 p2 p3] pre
  have "\<exists>i < length meleeTowers.
     isAlive (meleeTowers ! i) \<and> inMeleeReach (meleeTowers ! i) (meleeHeap 0) \<and>
     (\<forall>j < i. \<not> (isAlive (meleeTowers ! j) \<and> inMeleeReach (meleeTowers ! j) (meleeHeap 0))) \<and>
     attacksBy 0 popups2 =
       [\<lparr>ta_enemy = 0, ta_tower = i, ta_damage = attackDamage (meleeHeap 0)\<rparr>] \<and>
     hp (towers2 ! i) =
       (if jsub (hp (meleeTowers ! i)) (attackDamage (meleeHeap 0)) \<le> 0 then 0
        else jsub (hp (meleeTowers ! i)) (attackDamage (meleeHeap 0))) \<and>
     isAlive (towers2 ! i) = (0 < jsub (hp (meleeTowers ! i)) (attackDamage (meleeHeap 0))) \<and>
     length towers2 = length meleeTowers \<and>
     (\<forall>j < length meleeTowers. j \<noteq> i \<longrightarrow>
        hp (towers2 ! j) = hp (meleeTowers ! j) \<and>
        isAlive (towers2 ! j) = isAlive (meleeTowers ! j)) \<and>
     h2 0 = (meleeHeap 0)\<lparr>lastAttackTime := 5000\<rparr>"
    by blast
  then obtain i where i:
    "\<forall>j < i. \<not> (isAlive (meleeTowers ! j) \<and> inMeleeReach (meleeTowers ! j) (meleeHeap 0))"
    "attacksBy 0 popups2 =
       [\<lparr>ta_enemy = 0, ta_tower = i, ta_damage = attackDamage (meleeHeap 0)\<rparr>]"
    "hp (towers2 ! i) =
       (if jsub (hp (meleeTowers ! i)) (attackDamage (meleeHeap 0)) \<le> 0 then 0
        else jsub (hp (meleeTowers ! i)) (attackDamage (meleeHeap 0)))"
    "length towers2 = length meleeTowers"
    "\<forall>j < length meleeTowers. j \<noteq> i \<longrightarrow>
        hp (towers2 ! j) = hp (meleeTowers ! j) \<and>
        isAlive (towers2 ! j) = isAlive (meleeTowers ! j)"
    "h2 0 = (meleeHeap 0)\<lparr>lastAttackTime := 5000\<rparr>"
    by blast
  from i(1) meleeTowers_facts(2,5) have i0: "i = 0" by (cases i) auto
  from i(3) s have a: "hp (towers2 ! 0) = 92"
    by (simp add: i0 meleeTowers_facts(3) meleeHeap_facts(5))
  from i(5) have b: "hp (towers2 ! Suc 0) = 100"
    by (simp add: i0 meleeTowers_facts(1,4))
  from i(4) have "towers2 = [towers2 ! 0, towers2 ! Suc 0]"
    unfolding meleeTowers_facts(1) by (cases towers2; cases "tl towers2") auto
  then have "map hp towers2 = [hp (towers2 ! 0), hp (towers2 ! Suc 0)]"
    by (metis list.simps(8,9))
  with a b have m: "map hp towers2 = [92, 100]" by simp
  from i(2) have at: "attacksBy 0 popups2 = [\<lparr>ta_enemy = 0, ta_tower = 0, ta_damage = 8\<rparr>]"
    by (simp add: i0 meleeHeap_facts(5))
  from i(6) have "lastAttackTime (h2 0) = 5000" by simp
  with m at p3 meleeHeap_facts(2) show ?thesis by simp
qed

lemma ghostHeap_facts:
  "isAlive (ghostHeap r)" "enemyType (ghostHeap r) = Ghost" "attackDamage (ghostHeap r) = 8"
  "canAttackTower (ghostHeap r) 5000" "inMeleeReach weakTower (ghostHeap r)"
  "isAlive weakTower" "hp weakTower = 5"
  by (simp_all add: ghostHeap_def singleHeap_def exampleGhost_def weakTower_def
      exampleTower_def canAttackTower_def inMeleeReach_def distanceBetween_def GRID_SIZE_def
      jsub_def jmul_def jadd_def fl_0 fl_numeral jsqrt_0)

text \<open>
  C9 as stated, with the towers living in this tick, fails when an earlier enemy of the
  same pass destroys the tower. Two ghosts stand on a tower with 5 hit points; both are
  alive, off cooldown and within reach of it when the pass begins. The first ghost's attack
  of 8 destroys the tower; the second ghost then finds no living tower and attacks nothing.
\<close>

theorem melee_destroyed_tower_counterexample:
  "isAlive (ghostHeap 2) \<and> enemyType (ghostHeap 2) = Ghost \<and> canAttackTower (ghostHeap 2) 5000
   \<and> isAlive weakTower \<and> inMeleeReach weakTower (ghostHeap 2)
   \<and> processEnemyAttacks 5000 [0, 2] (ghostHeap, [weakTower], []) =
       (ghostHeap(0 := (ghostHeap 0)\<lparr>lastAttackTime := 5000\<rparr>),
        [weakTower\<lparr>hp := 0, isAlive := False, animationPhase := DamageShake, animationTimer := 0\<rparr>],
        [\<lparr>ta_enemy = 0, ta_tower = 0, ta_damage = 8\<rparr>])
   \<and> attacksBy 2 (snd (snd (processEnemyAttacks 5000 [0, 2] (ghostHeap, [weakTower], [])))) = []"
proof -
  have s: "jsub 5 8 = - 3" by code_simp
  have t: "Tower_takeDamage weakTower 8 =
     (True, weakTower\<lparr>hp := 0, isAlive := False, animationPhase := DamageShake, animationTimer := 0\<rparr>)"
    using s by (simp add: Tower_takeDamage_def triggerDamageAnimation_def Let_def ghostHeap_facts)
  have a: "adjacentTowerIndex (ghostHeap r) [weakTower] 0 = Some 0" for r
    using ghostHeap_facts(5)[of r] ghostHeap_facts(6) by (simp add: inMeleeReach_def)
  note reach = ghostHeap_facts(5)[unfolded inMeleeReach_def]
  have 1: "enemyAttackTurn 5000 (ghostHeap, [weakTower], []) 0 =
       (ghostHeap(0 := (ghostHeap 0)\<lparr>lastAttackTime := 5000\<rparr>),
        [weakTower\<lparr>hp := 0, isAlive := False, animationPhase := DamageShake, animationTimer := 0\<rparr>],
        [\<lparr>ta_enemy = 0, ta_tower = 0, ta_damage = 8\<rparr>])"
    by (simp add: enemyAttackTurn_def ghostHeap_facts reach attackTower_other t
        handleTowerDestruction_def createTowerMap_def Let_def)
  have 2: "enemyAttackTurn 5000 (ghostHeap(0 := (ghostHeap 0)\<lparr>lastAttackTime := 5000\<rparr>),
        [weakTower\<lparr>hp := 0, isAlive := False, animationPhase := DamageShake, animationTimer := 0\<rparr>],
        [\<lparr>ta_enemy = 0, ta_tower = 0, ta_damage = 8\<rparr>]) 2 =
       (ghostHeap(0 := (ghostHeap 0)\<lparr>lastAttackTime := 5000\<rparr>),
        [weakTower\<lparr>hp := 0, isAlive := False, animationPhase := DamageShake, animationTimer := 0\<rparr>],
        [\<lparr>ta_enemy = 0, ta_tower = 0, ta_damage = 8\<rparr>])"
    by (intro enemyAttackTurn_skip) simp
  from 1 2 show ?thesis
    by (simp add: processEnemyAttacks_def ghostHeap_facts attacksBy_def)
qed


section \<open>Synergy preview\<close>

lemma createTowerMap_snoc:
  "createTowerMap (ts @ [t]) = (createTowerMap ts)((gridRow t, gridCol t) \<mapsto> siteOf t)"
  by (simp add: createTowerMap_def)

lemma activeSynergies_setSynergies [simp]: "activeSynergies (setSynergies t s) = s"
  by (simp add: setSynergies_def)

lemma calculateAndApplySynergies_nth:
  assumes "i < length ts"
  shows "activeSynergies (calculateAndApplySynergies ts ! i) =
           calculateSynergiesForTower (siteOf (ts ! i)) (createTowerMap ts)"
  using assms by (simp add: calculateAndApplySynergies_def Let_def)

lemma length_calculateAndApplySynergies [simp]:
  "length (calculateAndApplySynergies ts) = length ts"
  by (simp add: calculateAndApplySynergies_def Let_def)

lemma synergies_same_length:
  assumes "length (calculateSynergiesForTower s m1) = length (calculateSynergiesForTower s m2)"
  shows "calculateSynergiesForTower s m1 = calculateSynergiesForTower s m2"
  using assms
  by (cases "ts_element s")
     (auto simp: calculateSynergiesForTower_def SYNERGY_CONFIGS_def Let_def split: if_splits)

lemma find_cell:
  assumes "distinct (map cellOf ts)" and "i < length ts" and "cellOf (ts ! i) = (r, c)"
  shows "find (\<lambda>t. gridRow t = r \<and> gridCol t = c) ts = Some (ts ! i)"
proof -
  have "\<not> (gridRow (ts ! j) = r \<and> gridCol (ts ! j) = c)" if "j < i" for j
  proof
    assume "gridRow (ts ! j) = r \<and> gridCol (ts ! j) = c"
    then have "cellOf (ts ! j) = cellOf (ts ! i)" using assms(3) by (simp add: cellOf_def)
    moreover have "j < length ts" using that assms(2) by simp
    ultimately have "j = i" using assms(1,2)
      by (metis distinct_conv_nth length_map nth_map)
    with that show False by simp
  qed
  moreover have "gridRow (ts ! i) = r \<and> gridCol (ts ! i) = c"
    using assms(3) by (simp add: cellOf_def)
  ultimately show ?thesis using assms(2) by (auto simp: find_Some_iff)
qed


text \<open>
  C7. Take any placement (element, row, column) and any list of existing towers in which no
  two towers share a cell and every tower's cached synergy list is one the synergy
  calculation produced (the constructor's empty list is). Compare the preview with really
  placing a tower of that element on that cell and recomputing all synergies. The preview's
  list for the new tower is the list the placed tower gets. The preview's affected towers
  are exactly the existing towers on the four orthogonally adjacent cells whose list after
  the placement differs from their cached one, each paired with its list after the
  placement. And the towers the preview leaves behind are the towers it was given, cached
  synergies and damage multipliers included.
\<close>

theorem preview_synergies:
  assumes "gridRow newTower = row" and "gridCol newTower = col" and "element newTower = el"
    and "distinct (map cellOf existingTowers)"
    and "\<forall>t \<in> set existingTowers.
           \<exists>m. activeSynergies t = calculateSynergiesForTower (siteOf t) m"
    and "previewSynergies el row col existingTowers = (preview, towersAfter)"
    and "placed = calculateAndApplySynergies (existingTowers @ [newTower])"
  shows "towersAfter = existingTowers
       \<and> newTowerSynergies preview = activeSynergies (last placed)
       \<and> set (affectedTowers preview) =
           {(existingTowers ! i, activeSynergies (placed ! i)) | i.
              i < length existingTowers \<and> isOrthogonalNeighbour row col (existingTowers ! i) \<and>
              activeSynergies (placed ! i) \<noteq> activeSynergies (existingTowers ! i)}"
proof -
  define temp where "temp = \<lparr>ts_gridRow = row, ts_gridCol = col, ts_element = el\<rparr>"
  define tmap where "tmap = (createTowerMap existingTowers)((row, col) \<mapsto> temp)"
  define new where "new t = calculateSynergiesForTower (siteOf t) tmap" for t
  define f where "f = (\<lambda>(dRow, dCol).
             case find (\<lambda>t. gridRow t = row + dRow \<and> gridCol t = col + dCol) existingTowers of
                  None \<Rightarrow> []
                | Some adjTower \<Rightarrow>
                    let newSynergies = new adjTower
                    in if length newSynergies \<noteq> length (activeSynergies adjTower)
                       then [(adjTower, newSynergies)] else [])"
  have site: "siteOf newTower = temp" using assms(1-3) by (simp add: siteOf_def temp_def)
  have tm: "createTowerMap (existingTowers @ [newTower]) = tmap"
    using assms(1,2) site by (simp add: createTowerMap_snoc tmap_def)
  have after: "activeSynergies (placed ! i) = new (existingTowers ! i)"
    if "i < length existingTowers" for i
    using that calculateAndApplySynergies_nth[of i "existingTowers @ [newTower]"]
    by (simp add: assms(7) tm nth_append new_def)
  have lastp: "activeSynergies (last placed) = calculateSynergiesForTower temp tmap"
    using tm site by (simp add: assms(7) calculateAndApplySynergies_def Let_def)
  have pv: "towersAfter = existingTowers"
    "newTowerSynergies preview = calculateSynergiesForTower temp tmap"
    "affectedTowers preview = concat (map f directions)"
    using assms(6)
    unfolding previewSynergies_def Let_def f_def new_def tmap_def temp_def by auto
  have len: "length (new t) \<noteq> length (activeSynergies t) \<longleftrightarrow> new t \<noteq> activeSynergies t"
    if "t \<in> set existingTowers" for t
  proof -
    from assms(5) that obtain m where "activeSynergies t = calculateSynergiesForTower (siteOf t) m"
      by blast
    then show ?thesis using synergies_same_length[of "siteOf t" tmap m] by (auto simp: new_def)
  qed
  have fd: "f (dRow, dCol) =
      (case find (\<lambda>t. gridRow t = row + dRow \<and> gridCol t = col + dCol) existingTowers of
         None \<Rightarrow> []
       | Some t \<Rightarrow> if length (new t) \<noteq> length (activeSynergies t) then [(t, new t)] else [])"
    for dRow dCol
    by (simp add: f_def Let_def split: option.splits)
  have "set (affectedTowers preview) =
           {(existingTowers ! i, activeSynergies (placed ! i)) | i.
              i < length existingTowers \<and> isOrthogonalNeighbour row col (existingTowers ! i) \<and>
              activeSynergies (placed ! i) \<noteq> activeSynergies (existingTowers ! i)}"
    (is "?L = ?R")
  proof (rule set_eqI)
    fix x
    show "x \<in> ?L \<longleftrightarrow> x \<in> ?R"
    proof
      assume "x \<in> ?L"
      then obtain d where d: "d \<in> set directions" and xd: "x \<in> set (f d)"
        unfolding pv(3) by auto
      obtain dRow dCol where dd: "d = (dRow, dCol)" by (cases d)
      from xd obtain t where
        f: "find (\<lambda>t. gridRow t = row + dRow \<and> gridCol t = col + dCol) existingTowers = Some t"
        and l: "length (new t) \<noteq> length (activeSynergies t)" and x: "x = (t, new t)"
        unfolding dd fd by (auto split: option.splits if_splits)
      from f obtain i where i: "i < length existingTowers" "t = existingTowers ! i"
        "gridRow t = row + dRow" "gridCol t = col + dCol"
        by (auto simp: find_Some_iff)
      have "isOrthogonalNeighbour row col t"
        using d dd i(3,4) by (simp add: isOrthogonalNeighbour_def)
      moreover have "new t \<noteq> activeSynergies t" using l by auto
      ultimately show "x \<in> ?R" using i(1,2) x after[OF i(1)] by auto
    next
      assume "x \<in> ?R"
      then obtain i where i: "i < length existingTowers"
        "isOrthogonalNeighbour row col (existingTowers ! i)"
        "activeSynergies (placed ! i) \<noteq> activeSynergies (existingTowers ! i)"
        "x = (existingTowers ! i, activeSynergies (placed ! i))" by blast
      define t where "t = existingTowers ! i"
      have d: "(gridRow t - row, gridCol t - col) \<in> set directions"
        using i(2) by (simp add: isOrthogonalNeighbour_def t_def)
      have "cellOf (existingTowers ! i) = (row + (gridRow t - row), col + (gridCol t - col))"
        by (simp add: cellOf_def t_def)
      from find_cell[OF assms(4) i(1) this]
      have f: "find (\<lambda>u. gridRow u = row + (gridRow t - row) \<and> gridCol u = col + (gridCol t - col))
                 existingTowers = Some t" by (simp add: t_def)
      have tin: "t \<in> set existingTowers" using i(1) by (simp add: t_def)
      have "length (new t) \<noteq> length (activeSynergies t)"
        using len[OF tin] i(3) after[OF i(1)] by (simp add: t_def)
      with f have "(t, new t) \<in> set (f (gridRow t - row, gridCol t - col))"
        unfolding fd by simp
      with d have "(t, new t) \<in> ?L" unfolding pv(3) by auto
      then show "x \<in> ?L" using i(4) after[OF i(1)] by (simp add: t_def)
    qed
  qed
  with pv(1,2) lastp show ?thesis by simp
qed


lemma exampleTowers_placed:
  "map activeSynergies (calculateAndApplySynergies (exampleTowers @ [exampleTower])) =
     [[\<lparr>sourceElement = Lightning, requiredElement = Fire, syn_damageMultiplier = 3 / 2\<rparr>],
      [],
      [\<lparr>sourceElement = Fire, requiredElement = Ice, syn_damageMultiplier = 2\<rparr>]]"
  by (simp add: calculateAndApplySynergies_def createTowerMap_def exampleTowers_def
      exampleTower_def siteOf_def calculateSynergiesForTower_def getAdjacentTowers_def
      directions_def GRID_ROWS_def GRID_COLS_def SYNERGY_CONFIGS_def Let_def)

theorem preview_synergies_witness:
  "snd (previewSynergies Fire 2 2 exampleTowers) = exampleTowers
   \<and> newTowerSynergies (fst (previewSynergies Fire 2 2 exampleTowers)) =
       [\<lparr>sourceElement = Fire, requiredElement = Ice, syn_damageMultiplier = 2\<rparr>]
   \<and> (exampleTowers ! 0,
        [\<lparr>sourceElement = Lightning, requiredElement = Fire, syn_damageMultiplier = 3 / 2\<rparr>])
       \<in> set (affectedTowers (fst (previewSynergies Fire 2 2 exampleTowers)))
   \<and> list_all (\<lambda>p. fst p \<noteq> exampleTowers ! 1)
        (affectedTowers (fst (previewSynergies Fire 2 2 exampleTowers)))"
proof -
  obtain preview towersAfter where
    p: "previewSynergies Fire 2 2 exampleTowers = (preview, towersAfter)"
    by (cases "previewSynergies Fire 2 2 exampleTowers")
  have a: "gridRow exampleTower = 2" "gridCol exampleTower = 2" "element exampleTower = Fire"
    by (simp_all add: exampleTower_def)
  have b: "distinct (map cellOf exampleTowers)"
    by (simp add: exampleTowers_def cellOf_def exampleTower_def)
  have e: "calculateSynergiesForTower s Map.empty = []" for s
    by (simp add: calculateSynergiesForTower_def getAdjacentTowers_def directions_def Let_def)
  have "activeSynergies t = calculateSynergiesForTower (siteOf t) Map.empty"
    if "t \<in> set exampleTowers" for t
    using that unfolding e by (auto simp: exampleTowers_def exampleTower_def)
  then have c: "\<forall>t \<in> set exampleTowers.
           \<exists>m. activeSynergies t = calculateSynergiesForTower (siteOf t) m"
    by blast
  define placed where "placed = calculateAndApplySynergies (exampleTowers @ [exampleTower])"
  have pl: "map activeSynergies placed =
     [[\<lparr>sourceElement = Lightning, requiredElement = Fire, syn_damageMultiplier = 3 / 2\<rparr>],
      [],
      [\<lparr>sourceElement = Fire, requiredElement = Ice, syn_damageMultiplier = 2\<rparr>]]"
    unfolding placed_def by (rule exampleTowers_placed)
  then have len: "length placed = 3" by (metis length_map length_Cons list.size(3) numeral_3_eq_3)
  from pl len have nth: "activeSynergies (placed ! 0) =
       [\<lparr>sourceElement = Lightning, requiredElement = Fire, syn_damageMultiplier = 3 / 2\<rparr>]"
    "activeSynergies (placed ! 1) = []"
    "activeSynergies (last placed) =
       [\<lparr>sourceElement = Fire, requiredElement = Ice, syn_damageMultiplier = 2\<rparr>]"
    by (metis nth_map nth_Cons_0 zero_less_numeral,
        metis nth_map nth_Cons_0 nth_Cons_Suc One_nat_def one_less_numeral_iff semiring_norm(77),
        metis last_map last.simps list.distinct(1) length_0_conv zero_neq_numeral)
  note T = preview_synergies[OF a b c p placed_def]
  have old: "activeSynergies (exampleTowers ! 0) = []" "activeSynergies (exampleTowers ! 1) = []"
    "length exampleTowers = 2"
    "isOrthogonalNeighbour 2 2 (exampleTowers ! 0)"
    by (simp_all add: exampleTowers_def exampleTower_def isOrthogonalNeighbour_def directions_def)
  from T have 1: "towersAfter = exampleTowers" by simp
  from T nth have 2: "newTowerSynergies preview =
       [\<lparr>sourceElement = Fire, requiredElement = Ice, syn_damageMultiplier = 2\<rparr>]" by simp
  from T have S: "set (affectedTowers preview) =
           {(exampleTowers ! i, activeSynergies (placed ! i)) | i.
              i < length exampleTowers \<and> isOrthogonalNeighbour 2 2 (exampleTowers ! i) \<and>
              activeSynergies (placed ! i) \<noteq> activeSynergies (exampleTowers ! i)}" by simp
  have 3: "(exampleTowers ! 0,
        [\<lparr>sourceElement = Lightning, requiredElement = Fire, syn_damageMultiplier = 3 / 2\<rparr>])
       \<in> set (affectedTowers preview)"
    unfolding S using nth(1) old by force
  have ne: "exampleTowers ! 0 \<noteq> exampleTowers ! 1"
    by (simp add: exampleTowers_def exampleTower_def)
  have 4: "list_all (\<lambda>p. fst p \<noteq> exampleTowers ! 1) (affectedTowers preview)"
    unfolding list_all_iff S using nth old ne
    by (auto simp: less_Suc_eq numeral_2_eq_2)
  from 1 2 3 4 p show ?thesis by simp
qed

end
